theory Spec2Isabelle
  imports Complex_Main
begin

section \<open>Numeric model\<close>

text \<open>
  The module \<^verbatim>\<open>anuga/shallow_water/smf.py\<close> computes with Python floats, which are
  IEEE doubles. A float is modelled by the real number it denotes. What Python raises
  is modelled as a value of type \<open>error + real\<close>: a float division by zero raises
  \<^verbatim>\<open>ZeroDivisionError\<close>, \<^verbatim>\<open>math.sqrt\<close> and \<^verbatim>\<open>math.log\<close> raise \<^verbatim>\<open>ValueError\<close> outside
  their domain, and \<^verbatim>\<open>math.exp\<close>, \<^verbatim>\<open>math.cosh\<close> and the float power \<^verbatim>\<open>**\<close> raise
  \<^verbatim>\<open>OverflowError\<close> when the exact result is larger than the largest finite double.

  Two effects of the double format decide which path the search \<^verbatim>\<open>find_min\<close> takes,
  and are modelled: \<^verbatim>\<open>math.exp\<close> underflows to \<open>0.0\<close> (\<open>float_exp\<close>), and the running
  abscissa \<^verbatim>\<open>x\<close> of the search is rounded to the nearest double after every
  subtraction (\<open>round_double\<close>), so that the rounding accumulates as it does in the
  code. The other operations \<open>+\<close>, \<open>-\<close>, \<open>*\<close>, \<open>/\<close> and the functions are exact: their
  rounding changes a value in its last digits only.
\<close>

datatype error =
    ZeroDivisionError
  | ValueError
  | OverflowError
  | UnboundLocalError
  | AssertionError

definition bnd :: "error + 'a \<Rightarrow> ('a \<Rightarrow> error + 'b) \<Rightarrow> error + 'b" where
  "bnd m f = (case m of Inl e \<Rightarrow> Inl e | Inr v \<Rightarrow> f v)"

text \<open>The largest finite IEEE double, \<open>(2 - 2\<^sup>-\<^sup>5\<^sup>2) * 2\<^sup>1\<^sup>0\<^sup>2\<^sup>3\<close>.\<close>

definition float_max :: real where
  "float_max = (2 ^ 53 - 1) * 2 ^ 971"

definition py_div :: "real \<Rightarrow> real \<Rightarrow> error + real" where
  "py_div a b = (if b = 0 then Inl ZeroDivisionError else Inr (a / b))"

definition py_sqrt :: "real \<Rightarrow> error + real" where
  "py_sqrt x = (if x < 0 then Inl ValueError else Inr (sqrt x))"

text \<open>\<^verbatim>\<open>log(x, e)\<close> is \<open>ln x / ln e\<close>, that is \<open>ln x\<close>.\<close>

definition py_log_e :: "real \<Rightarrow> error + real" where
  "py_log_e x = (if x \<le> 0 then Inl ValueError else Inr (ln x))"

text \<open>
  \<^verbatim>\<open>math.exp\<close> returns \<open>0.0\<close> without an exception when the result is at most
  \<open>2\<^sup>-\<^sup>1\<^sup>0\<^sup>7\<^sup>5\<close>, half of the least positive double (arguments below about \<open>-745.13\<close>).
\<close>

definition float_tiny :: real where
  "float_tiny = 1 / 2 ^ 1075"

definition float_exp :: "real \<Rightarrow> real" where
  "float_exp x = (if exp x \<le> float_tiny then 0 else exp x)"

definition py_exp :: "real \<Rightarrow> error + real" where
  "py_exp x = (if float_max < exp x then Inl OverflowError else Inr (float_exp x))"

definition py_cosh :: "real \<Rightarrow> error + real" where
  "py_cosh x = (if float_max < cosh x then Inl OverflowError else Inr (cosh x))"

text \<open>
  The float power \<^verbatim>\<open>x ** y\<close>: \<open>1\<close> for \<open>y = 0\<close>; a zero base gives \<open>0\<close>, or
  \<^verbatim>\<open>ZeroDivisionError\<close> for a negative exponent; a negative base with a fractional
  exponent raises \<^verbatim>\<open>ValueError\<close>.
\<close>

definition py_pow :: "real \<Rightarrow> real \<Rightarrow> error + real" where
  "py_pow x y =
     (if y = 0 then Inr 1
      else if x = 0 then (if y < 0 then Inl ZeroDivisionError else Inr 0)
      else if x < 0 \<and> y \<noteq> of_int \<lfloor>y\<rfloor> then Inl ValueError
      else (let r = (if x < 0 \<and> odd \<lfloor>y\<rfloor> then - (\<bar>x\<bar> powr y) else \<bar>x\<bar> powr y)
            in if float_max < \<bar>r\<bar> then Inl OverflowError else Inr r))"

definition radians :: "real \<Rightarrow> real" where
  "radians x = x * (pi / 180)"

text \<open>
  The double nearest to a real number, ties to the even significand: for
  \<open>2\<^sup>e \<le> \<bar>x\<bar> < 2\<^sup>e\<^sup>+\<^sup>1\<close> the doubles are the multiples of \<open>2\<^sup>e\<^sup>-\<^sup>5\<^sup>2\<close>. The exponent range
  is not bounded: overflow and subnormal numbers are not modelled here.
\<close>

definition round_half_even :: "real \<Rightarrow> int" where
  "round_half_even z =
     (let f = \<lfloor>z\<rfloor> in
      if z - of_int f < 1 / 2 then f
      else if 1 / 2 < z - of_int f then f + 1
      else if even f then f else f + 1)"

definition round_double :: "real \<Rightarrow> real" where
  "round_double x =
     (if x = 0 then 0
      else (let q = 2 powr (of_int (\<lfloor>log 2 \<bar>x\<bar>\<rfloor> - 52))
            in q * of_int (round_half_even (x / q))))"

section \<open>The evaluator \<^verbatim>\<open>Double_gaussian\<close>\<close>

text \<open>
  The attributes of the object: \<^verbatim>\<open>self.a3D\<close> is the field \<open>self_a3D\<close>, and so on. The
  constructor stores a number in \<^verbatim>\<open>self.dx\<close> in every case, so the field is a real.
\<close>

record Double_gaussian =
  self_a3D :: real
  self_wavelength :: real
  self_width :: real
  self_x0 :: real
  self_y0 :: real
  self_alpha :: real
  self_kappa :: real
  self_kappad :: real
  self_scale :: real
  self_dx :: real

text \<open>
  The offset of the second Gaussian,
  \<^verbatim>\<open>2.0 * (wavelength * sqrt(-log((zsmall/a3D),e))) / 5.0\<close>, as it is written in
  \<^verbatim>\<open>__init__\<close>, \<^verbatim>\<open>determineDX\<close>, \<^verbatim>\<open>slide_tsunami\<close> and \<^verbatim>\<open>slump_tsunami\<close>.
\<close>

definition dx_formula :: "real \<Rightarrow> real \<Rightarrow> real \<Rightarrow> error + real" where
  "dx_formula wavelength zsmall a3D =
     bnd (py_div zsmall a3D) (\<lambda>q.
     bnd (py_log_e q) (\<lambda>l.
     bnd (py_sqrt (- l)) (\<lambda>s.
     Inr (2 * (wavelength * s) / 5))))"

definition Double_gaussian_init ::
  "real \<Rightarrow> real \<Rightarrow> real \<Rightarrow> real \<Rightarrow> real \<Rightarrow> real \<Rightarrow> real \<Rightarrow> real \<Rightarrow> real \<Rightarrow> real option \<Rightarrow> real
     \<Rightarrow> error + Double_gaussian" where
  "Double_gaussian_init a3D wavelength width x0 y0 alpha kappa kappad zsmall dx scale =
     bnd (case dx of None \<Rightarrow> dx_formula wavelength zsmall a3D | Some d \<Rightarrow> Inr d) (\<lambda>d.
     Inr \<lparr>self_a3D = a3D, self_wavelength = wavelength, self_width = width,
          self_x0 = x0, self_y0 = y0, self_alpha = alpha, self_kappa = kappa,
          self_kappad = kappad, self_scale = scale, self_dx = d\<rparr>)"

text \<open>\<^verbatim>\<open>determineDX\<close> returns the new offset and the updated object.\<close>

definition determineDX :: "Double_gaussian \<Rightarrow> real \<Rightarrow> error + (real \<times> Double_gaussian)" where
  "determineDX self zsmall =
     bnd (dx_formula (self_wavelength self) zsmall (self_a3D self)) (\<lambda>d.
     Inr (d, self\<lparr>self_dx := d\<rparr>))"

text \<open>
  The body of the \<^verbatim>\<open>try\<close> in \<^verbatim>\<open>__call__\<close>, for one rotated point, in Python's
  order of evaluation.
\<close>

definition call_element :: "Double_gaussian \<Rightarrow> real \<Rightarrow> real \<Rightarrow> error + real" where
  "call_element self xr yr =
     bnd (py_div (self_kappa self * (yr - self_y0 self)) (self_width self + self_wavelength self)) (\<lambda>a.
     bnd (py_cosh a) (\<lambda>ch.
     bnd (py_pow ch 2) (\<lambda>ch2.
     bnd (py_div (- self_scale self) ch2) (\<lambda>f.
     bnd (py_div (xr - self_x0 self) (self_wavelength self)) (\<lambda>u.
     bnd (py_pow u 2) (\<lambda>u2.
     bnd (py_exp (- u2)) (\<lambda>e1.
     bnd (py_div (xr - self_dx self - self_x0 self) (self_wavelength self)) (\<lambda>v.
     bnd (py_pow v 2) (\<lambda>v2.
     bnd (py_exp (- v2)) (\<lambda>e2.
     Inr (f * (e1 - self_kappad self * e2))))))))))))"

text \<open>
  The loop \<^verbatim>\<open>for i in range(N)\<close> over the array \<open>z\<close>: an \<^verbatim>\<open>OverflowError\<close> is
  caught and the element is left as it is, any other exception leaves the loop.
\<close>

fun call_loop ::
  "Double_gaussian \<Rightarrow> real list \<Rightarrow> real list \<Rightarrow> nat list \<Rightarrow> real list \<Rightarrow> error + real list" where
  "call_loop self xr yr [] z = Inr z"
| "call_loop self xr yr (i # is) z =
     (case call_element self (xr ! i) (yr ! i) of
        Inr v \<Rightarrow> call_loop self xr yr is (z[i := v])
      | Inl e \<Rightarrow> if e = OverflowError then call_loop self xr yr is z else Inl e)"

definition rotate_x :: "Double_gaussian \<Rightarrow> real \<Rightarrow> real \<Rightarrow> real" where
  "rotate_x self x y =
     ((x - self_x0 self) * cos (radians (self_alpha self))
        - (y - self_y0 self) * sin (radians (self_alpha self))) + self_x0 self"

definition rotate_y :: "Double_gaussian \<Rightarrow> real \<Rightarrow> real \<Rightarrow> real" where
  "rotate_y self x y =
     ((x - self_x0 self) * sin (radians (self_alpha self))
        + (y - self_y0 self) * cos (radians (self_alpha self))) + self_y0 self"

definition Double_gaussian_call ::
  "Double_gaussian \<Rightarrow> real list \<Rightarrow> real list \<Rightarrow> error + real list" where
  "Double_gaussian_call self x y =
     (let N = length x in
      if N \<noteq> length y then Inl AssertionError
      else
        let xr = map2 (rotate_x self) x y;
            yr = map2 (rotate_y self) x y;
            z = replicate N 0
        in call_loop self xr yr [0..<N] z)"

section \<open>Specification-level notions\<close>

text \<open>
  The closed form the specification gives for one element, at a rotated point
  \<open>(xr, yr)\<close>, with total operations; its \<open>exp\<close> is the exponential of the floats,
  \<open>float_exp\<close>.
\<close>

definition formula_value :: "Double_gaussian \<Rightarrow> real \<Rightarrow> real \<Rightarrow> real" where
  "formula_value self xr yr =
     - self_scale self
       / (cosh (self_kappa self * (yr - self_y0 self) / (self_width self + self_wavelength self)))\<^sup>2
       * (float_exp (- ((xr - self_x0 self) / self_wavelength self)\<^sup>2)
          - self_kappad self
            * float_exp (- ((xr - self_dx self - self_x0 self) / self_wavelength self)\<^sup>2))"

text \<open>
  The image of the point \<open>p\<close> under the rotation by \<open>theta\<close> degrees about the centre
  \<open>c\<close>, in the usual sense: a positive angle turns counter-clockwise, so the rotation
  by \<open>90\<close> degrees about the origin takes \<open>(1, 0)\<close> to \<open>(0, 1)\<close>.
\<close>

definition rotation :: "real \<Rightarrow> real \<times> real \<Rightarrow> real \<times> real \<Rightarrow> real \<times> real" where
  "rotation theta c p =
     (fst c + (fst p - fst c) * cos (radians theta) - (snd p - snd c) * sin (radians theta),
      snd c + (fst p - fst c) * sin (radians theta) + (snd p - snd c) * cos (radians theta))"

text \<open>
  What \<^verbatim>\<open>__call__\<close> leaves in \<open>z[i]\<close> for the input point \<open>(x, y)\<close>: the value of the
  \<^verbatim>\<open>try\<close> body, or the initial \<open>0\<close> when the body raised.
\<close>

definition point_value :: "Double_gaussian \<Rightarrow> real \<Rightarrow> real \<Rightarrow> real" where
  "point_value self x y =
     (case call_element self (rotate_x self x y) (rotate_y self x y) of
        Inr v \<Rightarrow> v
      | Inl e \<Rightarrow> 0)"

text \<open>An evaluator used to instantiate the theorems below.\<close>

definition example_evaluator :: Double_gaussian where
  "example_evaluator =
     \<lparr>self_a3D = 1, self_wavelength = 1, self_width = 1, self_x0 = 0, self_y0 = 0,
      self_alpha = 0, self_kappa = 3, self_kappad = 4/5, self_scale = 1, self_dx = 1\<rparr>"

section \<open>The extremum search \<^verbatim>\<open>find_min\<close>\<close>

text \<open>
  The expression assigned to \<^verbatim>\<open>deriv\<close> in the loop (\<open>deriv_expr\<close>) and the expression
  of \<^verbatim>\<open>g_xstar\<close> after it (\<open>g_expr\<close>), in Python's order of evaluation. The local
  variables of the \<^verbatim>\<open>while\<close> loop are the fields of \<open>search_state\<close>; \<open>xstar\<close> is
  \<open>None\<close> while the variable is unbound, and reading it then raises
  \<^verbatim>\<open>UnboundLocalError\<close>. The loop runs at most \<open>count_max\<close> times, which is the measure
  of its termination. The literal \<^verbatim>\<open>0.05\<close> is the double nearest to \<open>0.05\<close>, and
  \<^verbatim>\<open>x = x0+50.\<close> and \<^verbatim>\<open>x -= step\<close> store the double nearest to the sum and to the
  difference.
\<close>

definition count_max :: nat where
  "count_max = 1000000"

definition step :: real where
  "step = round_double 0.05"

definition deriv_expr :: "real \<Rightarrow> real \<Rightarrow> real \<Rightarrow> real \<Rightarrow> real \<Rightarrow> error + real" where
  "deriv_expr x0 wa kappad dx x =
     bnd (py_div (x - x0) wa) (\<lambda>u.
     bnd (py_pow u 2) (\<lambda>u2.
     bnd (py_exp (- u2)) (\<lambda>e1.
     bnd (py_div (x - dx - x0) wa) (\<lambda>v.
     bnd (py_pow v 2) (\<lambda>v2.
     bnd (py_exp (- v2)) (\<lambda>e2.
     Inr ((x - x0) * e1 - kappad * (x - dx - x0) * e2)))))))"

definition g_expr :: "real \<Rightarrow> real \<Rightarrow> real \<Rightarrow> real \<Rightarrow> real \<Rightarrow> error + real" where
  "g_expr x0 wa kappad dx xstar =
     bnd (py_div (xstar - x0) wa) (\<lambda>u.
     bnd (py_pow u 2) (\<lambda>u2.
     bnd (py_exp (- u2)) (\<lambda>e1.
     bnd (py_div (xstar - dx - x0) wa) (\<lambda>v.
     bnd (py_pow v 2) (\<lambda>v2.
     bnd (py_exp (- v2)) (\<lambda>e2.
     Inr (e1 - kappad * e2)))))))"

record search_state =
  st_c :: nat
  st_deriv :: real
  st_x :: real
  st_xstar :: "real option"

function find_min_loop ::
  "real \<Rightarrow> real \<Rightarrow> real \<Rightarrow> real \<Rightarrow> search_state \<Rightarrow> error + search_state" where
  "find_min_loop x0 wa kappad dx s =
     (if st_c s < count_max \<and> st_deriv s > 0 then
        (case deriv_expr x0 wa kappad dx (st_x s) of
           Inl e \<Rightarrow> Inl e
         | Inr d \<Rightarrow>
             find_min_loop x0 wa kappad dx
               \<lparr>st_c = st_c s + 1, st_deriv = d, st_x = round_double (st_x s - step),
                st_xstar = (if d \<le> 0 then Some (st_x s) else st_xstar s)\<rparr>)
      else Inr s)"
  by pat_completeness auto

termination
  by (relation "measure (\<lambda>(x0, wa, kappad, dx, s). count_max - st_c s)") auto

definition initial_state :: "real \<Rightarrow> search_state" where
  "initial_state x0 =
     \<lparr>st_c = 0, st_deriv = 10, st_x = round_double (x0 + 50), st_xstar = None\<rparr>"

definition find_min :: "real \<Rightarrow> real \<Rightarrow> real \<Rightarrow> real \<Rightarrow> error + real" where
  "find_min x0 wa kappad dx =
     bnd (find_min_loop x0 wa kappad dx (initial_state x0)) (\<lambda>s.
     case st_xstar s of
       None \<Rightarrow> Inl UnboundLocalError
     | Some xstar \<Rightarrow>
         bnd (g_expr x0 wa kappad dx xstar) (\<lambda>g_xstar. Inr (g_xstar * 1)))"

section \<open>\<^verbatim>\<open>slide_tsunami\<close>\<close>

text \<open>
  The keyword arguments are the fields of \<open>slide_args\<close>, all of them floats. The
  \<^verbatim>\<open>domain\<close> argument is represented by the pair \<open>(xllcorner, yllcorner)\<close> of its
  georeference. Each assignment of the body is one definition, in the order of the
  source. \<^verbatim>\<open>math.tan\<close> is HOL's \<open>tan\<close>, which is \<open>0\<close> where the tangent is undefined.
\<close>

record slide_args =
  sl_length :: real
  sl_depth :: real
  sl_slope :: real
  sl_width :: "real option"
  sl_thickness :: "real option"
  sl_x0 :: real
  sl_y0 :: real
  sl_alpha :: real
  sl_gravity :: real
  sl_gamma :: real
  sl_massco :: real
  sl_dragco :: real
  sl_frictionco :: real
  sl_psi :: real
  sl_dx :: "real option"
  sl_kappa :: real
  sl_kappad :: real
  sl_zsmall :: real
  sl_scale :: "real option"
  sl_domain :: "(real \<times> real) option"
  sl_verbose :: bool

text \<open>
  The derived scaling quantities; \<open>sc_velocity\<close> is \<^verbatim>\<open>ut\<close> for a slide and \<^verbatim>\<open>um\<close> for a
  slump.
\<close>

record scaling =
  sc_a0 :: real
  sc_velocity :: real
  sc_s0 :: real
  sc_t0 :: real
  sc_w :: real
  sc_a2D :: real
  sc_a3D :: real

definition slide_x0 :: "slide_args \<Rightarrow> real" where
  "slide_x0 p = (case sl_domain p of None \<Rightarrow> sl_x0 p | Some (xllcorner, yllcorner) \<Rightarrow> sl_x0 p - xllcorner)"

definition slide_y0 :: "slide_args \<Rightarrow> real" where
  "slide_y0 p = (case sl_domain p of None \<Rightarrow> sl_y0 p | Some (xllcorner, yllcorner) \<Rightarrow> sl_y0 p - yllcorner)"

definition slide_width :: "slide_args \<Rightarrow> real" where
  "slide_width p = (case sl_width p of None \<Rightarrow> 0.25 * sl_length p | Some w \<Rightarrow> w)"

definition slide_thickness :: "slide_args \<Rightarrow> real" where
  "slide_thickness p = (case sl_thickness p of None \<Rightarrow> 0.01 * sl_length p | Some t \<Rightarrow> t)"

definition slide_sint :: "slide_args \<Rightarrow> real" where
  "slide_sint p = sin (radians (sl_slope p))"

definition slide_tant :: "slide_args \<Rightarrow> real" where
  "slide_tant p = tan (radians (sl_slope p))"

definition slide_tanp :: "slide_args \<Rightarrow> real" where
  "slide_tanp p = tan (radians (sl_psi p))"

definition slide_a0 :: "slide_args \<Rightarrow> error + real" where
  "slide_a0 p =
     bnd (py_div (sl_gamma p - 1) (sl_gamma p + sl_massco p)) (\<lambda>q.
     bnd (py_div (slide_tanp p) (slide_tant p)) (\<lambda>r.
     Inr (sl_gravity p * slide_sint p * q * (1 - r))))"

definition slide_ut :: "slide_args \<Rightarrow> error + real" where
  "slide_ut p =
     bnd (py_div (sl_length p * slide_sint p) (sl_depth p)) (\<lambda>a.
     bnd (py_div (pi * (sl_gamma p - 1)) (2 * sl_dragco p)) (\<lambda>b.
     bnd (py_div (slide_tanp p) (slide_tant p)) (\<lambda>r.
     py_sqrt ((sl_gravity p * sl_depth p) * a * b * (1 - r)))))"

definition slide_a2D :: "slide_args \<Rightarrow> real \<Rightarrow> error + real" where
  "slide_a2D p s0 =
     bnd (py_div (slide_thickness p) (sl_length p)) (\<lambda>tl.
     bnd (py_div (sl_length p * slide_sint p) (sl_depth p)) (\<lambda>a.
     bnd (py_pow a 1.25) (\<lambda>a125.
     bnd (py_exp (- 2.2 * (sl_gamma p - 1))) (\<lambda>e.
     Inr (s0 * (0.0574 - (0.0431 * slide_sint p)) * tl * a125 * (1 - e))))))"

definition slide_a3D :: "slide_args \<Rightarrow> real \<Rightarrow> error + real" where
  "slide_a3D p a2D =
     bnd (py_div (sl_depth p) (sl_length p * slide_sint p)) (\<lambda>q.
     bnd (py_sqrt q) (\<lambda>r.
     py_div a2D (1 + (15.5 * r))))"

definition slide_scaling :: "slide_args \<Rightarrow> error + scaling" where
  "slide_scaling p =
     bnd (slide_a0 p) (\<lambda>a0.
     bnd (slide_ut p) (\<lambda>ut.
     bnd (py_pow ut 2) (\<lambda>ut2.
     bnd (py_div ut2 a0) (\<lambda>s0.
     bnd (py_div ut a0) (\<lambda>t0.
     bnd (py_sqrt (sl_gravity p * sl_depth p)) (\<lambda>r.
     bnd (slide_a2D p s0) (\<lambda>a2D.
     bnd (slide_a3D p a2D) (\<lambda>a3D.
     Inr \<lparr>sc_a0 = a0, sc_velocity = ut, sc_s0 = s0, sc_t0 = t0, sc_w = t0 * r,
          sc_a2D = a2D, sc_a3D = a3D\<rparr>))))))))"

text \<open>The divisions evaluated by the advisory range checks; the printing is not modelled.\<close>

definition slide_range_checks :: "slide_args \<Rightarrow> error + unit" where
  "slide_range_checks p =
     bnd (py_div (sl_depth p) (sl_length p)) (\<lambda>dl.
     bnd (py_div (slide_thickness p) (sl_length p)) (\<lambda>tl.
     Inr ()))"

definition slide_tsunami :: "slide_args \<Rightarrow> error + Double_gaussian" where
  "slide_tsunami p =
     bnd (slide_scaling p) (\<lambda>q.
     bnd (dx_formula (sc_w q) (sl_zsmall p) (sc_a3D q)) (\<lambda>dx.
     bnd (find_min (slide_x0 p) (sc_w q) (sl_kappad p) dx) (\<lambda>nmin.
     bnd (case sl_scale p of None \<Rightarrow> py_div (sc_a3D q) nmin | Some s \<Rightarrow> Inr s) (\<lambda>scale.
     bnd (slide_range_checks p) (\<lambda>u.
     Double_gaussian_init (sc_a3D q) (sc_w q) (slide_width p) (slide_x0 p) (slide_y0 p)
       (sl_alpha p) (sl_kappa p) (sl_kappad p) (sl_zsmall p) (Some dx) scale)))))"

section \<open>\<^verbatim>\<open>slump_tsunami\<close>\<close>

text \<open>
  As for the slide. The radius defaults to \<^verbatim>\<open>length**2 / (8.0 * thickness)\<close>, which can
  raise, and the range checks also divide the radius by the length.
\<close>

record slump_args =
  sm_length :: real
  sm_depth :: real
  sm_slope :: real
  sm_width :: "real option"
  sm_thickness :: "real option"
  sm_radius :: "real option"
  sm_dphi :: real
  sm_x0 :: real
  sm_y0 :: real
  sm_alpha :: real
  sm_gravity :: real
  sm_gamma :: real
  sm_massco :: real
  sm_dragco :: real
  sm_frictionco :: real
  sm_dx :: "real option"
  sm_kappa :: real
  sm_kappad :: real
  sm_zsmall :: real
  sm_scale :: "real option"
  sm_domain :: "(real \<times> real) option"
  sm_verbose :: bool

definition slump_x0 :: "slump_args \<Rightarrow> real" where
  "slump_x0 p = (case sm_domain p of None \<Rightarrow> sm_x0 p | Some (xllcorner, yllcorner) \<Rightarrow> sm_x0 p - xllcorner)"

definition slump_y0 :: "slump_args \<Rightarrow> real" where
  "slump_y0 p = (case sm_domain p of None \<Rightarrow> sm_y0 p | Some (xllcorner, yllcorner) \<Rightarrow> sm_y0 p - yllcorner)"

definition slump_width :: "slump_args \<Rightarrow> real" where
  "slump_width p = (case sm_width p of None \<Rightarrow> sm_length p | Some w \<Rightarrow> w)"

definition slump_thickness :: "slump_args \<Rightarrow> real" where
  "slump_thickness p = (case sm_thickness p of None \<Rightarrow> 0.1 * sm_length p | Some t \<Rightarrow> t)"

definition slump_radius :: "slump_args \<Rightarrow> error + real" where
  "slump_radius p =
     (case sm_radius p of
        None \<Rightarrow> bnd (py_pow (sm_length p) 2) (\<lambda>l2. py_div l2 (8.0 * slump_thickness p))
      | Some r \<Rightarrow> Inr r)"

definition slump_sint :: "slump_args \<Rightarrow> real" where
  "slump_sint p = sin (radians (sm_slope p))"

definition slump_t0 :: "slump_args \<Rightarrow> real \<Rightarrow> error + real" where
  "slump_t0 p radius =
     bnd (py_div (radius * (sm_gamma p + sm_massco p)) (sm_gravity p * (sm_gamma p - 1))) (\<lambda>q.
     py_sqrt q)"

definition slump_a2D :: "slump_args \<Rightarrow> real \<Rightarrow> real \<Rightarrow> error + real" where
  "slump_a2D p radius s0 =
     bnd (py_div 0.131 (slump_sint p)) (\<lambda>c.
     bnd (py_div (slump_thickness p) (sm_length p)) (\<lambda>tl.
     bnd (py_div (sm_length p * slump_sint p) (sm_depth p)) (\<lambda>a.
     bnd (py_pow a 1.25) (\<lambda>a125.
     bnd (py_div (sm_length p) radius) (\<lambda>lr.
     bnd (py_pow lr 0.63) (\<lambda>lr063.
     bnd (py_pow (sm_dphi p) 0.39) (\<lambda>dphi039.
     Inr (s0 * c * tl * a125 * lr063 * dphi039
            * (1.47 - (0.35 * (sm_gamma p - 1))) * (sm_gamma p - 1)))))))))"

definition slump_a3D :: "slump_args \<Rightarrow> real \<Rightarrow> error + real" where
  "slump_a3D p a2D =
     bnd (py_div (sm_depth p) (sm_length p)) (\<lambda>q.
     bnd (py_sqrt q) (\<lambda>r.
     py_div a2D (1 + (2.06 * r))))"

definition slump_scaling :: "slump_args \<Rightarrow> error + (real \<times> scaling)" where
  "slump_scaling p =
     bnd (slump_radius p) (\<lambda>radius.
     bnd (py_div (radius * sm_dphi p) 2) (\<lambda>s0.
     bnd (slump_t0 p radius) (\<lambda>t0.
     bnd (py_pow t0 2) (\<lambda>t02.
     bnd (py_div s0 t02) (\<lambda>a0.
     bnd (py_div s0 t0) (\<lambda>um.
     bnd (py_sqrt (sm_gravity p * sm_depth p)) (\<lambda>r.
     bnd (slump_a2D p radius s0) (\<lambda>a2D.
     bnd (slump_a3D p a2D) (\<lambda>a3D.
     Inr (radius,
          \<lparr>sc_a0 = a0, sc_velocity = um, sc_s0 = s0, sc_t0 = t0, sc_w = t0 * r,
           sc_a2D = a2D, sc_a3D = a3D\<rparr>))))))))))"

definition slump_range_checks :: "slump_args \<Rightarrow> real \<Rightarrow> error + unit" where
  "slump_range_checks p radius =
     bnd (py_div (sm_depth p) (sm_length p)) (\<lambda>dl.
     bnd (py_div (slump_thickness p) (sm_length p)) (\<lambda>tl.
     bnd (py_div radius (sm_length p)) (\<lambda>rl.
     Inr ())))"

definition slump_tsunami :: "slump_args \<Rightarrow> error + Double_gaussian" where
  "slump_tsunami p =
     bnd (slump_scaling p) (\<lambda>(radius, q).
     bnd (dx_formula (sc_w q) (sm_zsmall p) (sc_a3D q)) (\<lambda>dx.
     bnd (find_min (slump_x0 p) (sc_w q) (sm_kappad p) dx) (\<lambda>nmin.
     bnd (case sm_scale p of None \<Rightarrow> py_div (sc_a3D q) nmin | Some s \<Rightarrow> Inr s) (\<lambda>scale.
     bnd (slump_range_checks p radius) (\<lambda>u.
     Double_gaussian_init (sc_a3D q) (sc_w q) (slump_width p) (slump_x0 p) (slump_y0 p)
       (sm_alpha p) (sm_kappa p) (sm_kappad p) (sm_zsmall p) (Some dx) scale)))))"

section \<open>Specification-level notions of the search\<close>

text \<open>
  The shape function \<open>g\<close> of the specification and the expression that the loop of
  \<^verbatim>\<open>find_min\<close> assigns to \<^verbatim>\<open>deriv\<close>, as total functions: \<open>g_fun\<close> and \<open>deriv_fun\<close> with
  the exponential of the floats, which is what the code computes, and \<open>g_exact\<close> with
  the real exponential, which is the function whose derivative the specification
  speaks of.
\<close>

definition g_fun :: "real \<Rightarrow> real \<Rightarrow> real \<Rightarrow> real \<Rightarrow> real \<Rightarrow> real" where
  "g_fun x0 wa kappad dx x =
     float_exp (- ((x - x0) / wa)\<^sup>2) - kappad * float_exp (- ((x - dx - x0) / wa)\<^sup>2)"

definition deriv_fun :: "real \<Rightarrow> real \<Rightarrow> real \<Rightarrow> real \<Rightarrow> real \<Rightarrow> real" where
  "deriv_fun x0 wa kappad dx x =
     (x - x0) * float_exp (- ((x - x0) / wa)\<^sup>2)
       - kappad * (x - dx - x0) * float_exp (- ((x - dx - x0) / wa)\<^sup>2)"

definition g_exact :: "real \<Rightarrow> real \<Rightarrow> real \<Rightarrow> real \<Rightarrow> real \<Rightarrow> real" where
  "g_exact x0 wa kappad dx x =
     exp (- ((x - x0) / wa)\<^sup>2) - kappad * exp (- ((x - dx - x0) / wa)\<^sup>2)"

text \<open>
  Neither exponential of \<open>g\<close> underflows at \<open>x\<close>; then \<open>g_fun\<close> is \<open>g_exact\<close> at \<open>x\<close>.
\<close>

definition no_underflow :: "real \<Rightarrow> real \<Rightarrow> real \<Rightarrow> real \<Rightarrow> bool" where
  "no_underflow x0 wa dx x \<longleftrightarrow>
     float_tiny < exp (- ((x - x0) / wa)\<^sup>2) \<and> float_tiny < exp (- ((x - dx - x0) / wa)\<^sup>2)"

text \<open>
  The value of \<open>x\<close> at the start of iteration \<open>k\<close> (counted from \<open>0\<close>), as the loop
  computes it.
\<close>

fun search_x :: "real \<Rightarrow> nat \<Rightarrow> real" where
  "search_x x0 0 = round_double (x0 + 50)"
| "search_x x0 (Suc k) = round_double (search_x x0 k - step)"

text \<open>
  At iteration \<open>j\<close> the expression for \<^verbatim>\<open>deriv\<close> evaluates without an exception, to a
  positive value (\<open>positive_at\<close>) or to a non-positive one (\<open>nonpositive_at\<close>).
\<close>

definition positive_at :: "real \<Rightarrow> real \<Rightarrow> real \<Rightarrow> real \<Rightarrow> nat \<Rightarrow> bool" where
  "positive_at x0 wa kappad dx j =
     (case deriv_expr x0 wa kappad dx (search_x x0 j) of Inl e \<Rightarrow> False | Inr d \<Rightarrow> 0 < d)"

definition nonpositive_at :: "real \<Rightarrow> real \<Rightarrow> real \<Rightarrow> real \<Rightarrow> nat \<Rightarrow> bool" where
  "nonpositive_at x0 wa kappad dx j =
     (case deriv_expr x0 wa kappad dx (search_x x0 j) of Inl e \<Rightarrow> False | Inr d \<Rightarrow> d \<le> 0)"

section \<open>Example inputs\<close>

text \<open>
  A slide on a 30 degree slope whose scaling quantities have closed forms:
  \<open>a0 = 1/2\<close>, \<open>ut = sqrt pi\<close>, \<open>s0 = 2 pi\<close>, \<open>t0 = 2 sqrt pi\<close>, \<open>w = 2 sqrt (2 pi)\<close>;
  \<open>slide_example_a2D t\<close> is its \<open>a2D\<close> for the thickness \<open>t\<close>.
\<close>

definition slide_example :: slide_args where
  "slide_example =
     \<lparr>sl_length = 2, sl_depth = 1, sl_slope = 30, sl_width = None, sl_thickness = Some 2,
      sl_x0 = 0, sl_y0 = 0, sl_alpha = 0, sl_gravity = 2, sl_gamma = 2, sl_massco = 0,
      sl_dragco = 1, sl_frictionco = 0, sl_psi = 0, sl_dx = None, sl_kappa = 3, sl_kappad = 2,
      sl_zsmall = 0.005, sl_scale = None, sl_domain = None, sl_verbose = False\<rparr>"

definition slide_example_a2D :: "real \<Rightarrow> real" where
  "slide_example_a2D t = 2 * pi * (0.0574 - 0.0431 * (1 / 2)) * (t / 2) * (1 - exp (- 2.2))"







section \<open>Basic facts\<close>

lemma bnd_Inl [simp]: "bnd (Inl e) f = Inl e"
  by (simp add: bnd_def)

lemma bnd_Inr [simp]: "bnd (Inr v) f = f v"
  by (simp add: bnd_def)

lemma float_max_pos: "1 < float_max"
  by (simp add: float_max_def)

lemma float_exp_nonneg: "0 \<le> float_exp x"
  by (simp add: float_exp_def)

lemma float_exp_le: "float_exp x \<le> exp x"
  by (simp add: float_exp_def)

lemma exp_nat_upper: "exp (real n) \<le> 3 ^ n"
proof -
  have "exp (real n) = exp (real n * 1)" by simp
  also have "\<dots> = exp 1 ^ n" by (simp only: exp_of_nat_mult)
  also have "\<dots> \<le> 3 ^ n"
    using exp_le by (intro power_mono) simp_all
  finally show ?thesis .
qed

lemma float_exp_eq: "- 650 \<le> x \<Longrightarrow> float_exp x = exp x"
proof -
  assume x: "- 650 \<le> x"
  have "exp (real 650) \<le> 3 ^ 650" by (rule exp_nat_upper)
  also have "\<dots> < (2::real) ^ 1075" by simp
  finally have "exp (650::real) < 2 ^ 1075" by simp
  moreover have "exp (- x) \<le> exp (650::real)" using x by simp
  ultimately have "exp (- x) < 2 ^ 1075" by linarith
  then have "1 / 2 ^ 1075 < 1 / exp (- x)"
    by (intro divide_strict_left_mono) simp_all
  then have "float_tiny < exp x"
    by (simp add: float_tiny_def exp_minus inverse_eq_divide)
  then show ?thesis by (simp add: float_exp_def)
qed

lemma float_exp_underflow: "x \<le> - 1075 \<Longrightarrow> float_exp x = 0"
proof -
  assume x: "x \<le> - 1075"
  have "(2::real) ^ 1075 \<le> exp 1 ^ 1075"
    using exp_ge_add_one_self[of "1::real"] by (intro power_mono) simp_all
  also have "\<dots> = exp (real 1075 * 1)" by (simp only: exp_of_nat_mult)
  finally have "(2::real) ^ 1075 \<le> exp 1075" by simp
  also have "\<dots> \<le> exp (- x)" using x by simp
  finally have "1 / exp (- x) \<le> 1 / 2 ^ 1075"
    by (intro divide_left_mono) simp_all
  then have "exp x \<le> float_tiny"
    by (simp add: float_tiny_def exp_minus inverse_eq_divide)
  then show ?thesis by (simp add: float_exp_def)
qed

lemma round_half_even_error: "\<bar>of_int (round_half_even z) - z\<bar> \<le> 1 / 2"
proof -
  have "of_int \<lfloor>z\<rfloor> \<le> z" "z < of_int \<lfloor>z\<rfloor> + 1" by simp_all
  then show ?thesis
    by (auto simp: round_half_even_def Let_def)
qed

lemma round_half_even_of_int [simp]: "round_half_even (of_int n) = n"
  by (simp add: round_half_even_def)

lemma round_double_error: "\<bar>round_double x - x\<bar> \<le> \<bar>x\<bar> / 2 ^ 53"
proof (cases "x = 0")
  case True
  then show ?thesis by (simp add: round_double_def)
next
  case False
  define e where "e = \<lfloor>log 2 \<bar>x\<bar>\<rfloor>"
  define q :: real where "q = 2 powr (of_int (e - 52))"
  have q: "0 < q" by (simp add: q_def)
  have "of_int e \<le> log 2 \<bar>x\<bar>" by (simp add: e_def)
  then have "2 powr (of_int e) \<le> \<bar>x\<bar>"
    using False by (simp add: le_log_iff)
  moreover have "2 powr (of_int e) = q * 2 ^ 52"
    by (simp add: q_def powr_diff)
  ultimately have qx: "q * 2 ^ 52 \<le> \<bar>x\<bar>" by simp
  have rd: "round_double x = q * of_int (round_half_even (x / q))"
    using False by (simp add: round_double_def q_def e_def Let_def)
  have "round_double x - x = q * (of_int (round_half_even (x / q)) - x / q)"
    using q by (simp add: rd algebra_simps)
  then have "\<bar>round_double x - x\<bar> = q * \<bar>of_int (round_half_even (x / q)) - x / q\<bar>"
    using q by (simp add: abs_mult)
  also have "\<dots> \<le> q * (1 / 2)"
    using q round_half_even_error[of "x / q"] by (intro mult_left_mono) simp_all
  also have "\<dots> = (q * 2 ^ 52) / 2 ^ 53" by simp
  also have "\<dots> \<le> \<bar>x\<bar> / 2 ^ 53"
    using qx by (intro divide_right_mono) simp_all
  finally show ?thesis .
qed

lemma round_double_exact:
  assumes "2 powr (of_int e) \<le> \<bar>x\<bar>" "\<bar>x\<bar> < 2 powr (of_int e + 1)"
    and "x = 2 powr (of_int (e - 52)) * of_int n"
  shows "round_double x = x"
proof -
  have x0: "x \<noteq> 0"
    using assms(1) by (metis abs_zero not_le powr_gt_zero zero_neq_numeral)
  have "\<lfloor>log 2 \<bar>x\<bar>\<rfloor> = e"
    using x0 assms(1,2) by (simp add: floor_log_eq_powr_iff)
  then show ?thesis
    using x0 assms(3) by (simp add: round_double_def Let_def)
qed

lemma round_double_50: "round_double 50 = 50"
proof (rule round_double_exact[where e = 5 and n = "50 * 2 ^ 47"])
  show "2 powr (of_int 5) \<le> \<bar>50::real\<bar>" by simp
  show "\<bar>50::real\<bar> < 2 powr (of_int 5 + 1)" by simp
  show "(50::real) = 2 powr (of_int (5 - 52)) * of_int (50 * 2 ^ 47)"
    by (simp add: powr_minus_divide)
qed

lemma step_bounds: "\<bar>step - 1 / 20\<bar> \<le> 1 / 2 ^ 57"
proof -
  have "\<bar>round_double 0.05 - 0.05\<bar> \<le> \<bar>0.05\<bar> / 2 ^ 53"
    by (rule round_double_error)
  also have "\<dots> \<le> 1 / 2 ^ 57" by simp
  finally show ?thesis by (simp add: step_def)
qed

lemma search_x_drift:
  "k \<le> 2 ^ 20 \<Longrightarrow> \<bar>search_x 0 k - (50 - real k / 20)\<bar> \<le> real k / 2 ^ 36"
proof (induction k)
  case 0
  then show ?case by (simp add: round_double_50)
next
  case (Suc k)
  define x where "x = search_x 0 k"
  define y where "y = x - step"
  have k: "real k \<le> 2 ^ 20" using Suc.prems by simp
  have ih: "\<bar>x - (50 - real k / 20)\<bar> \<le> real k / 2 ^ 36"
    unfolding x_def using Suc by simp
  have "real k / 2 ^ 36 \<le> 2 ^ 20 / 2 ^ 36"
    using k by (intro divide_right_mono) simp_all
  then have d: "real k / 2 ^ 36 \<le> 1" by simp
  have k20: "real k / 20 \<le> 52429" using k by simp
  have k0: "0 \<le> real k / 20" by simp
  have st: "\<bar>step - 1 / 20\<bar> \<le> 1 / 2 ^ 57" by (rule step_bounds)
  have "(1::real) / 2 ^ 57 \<le> 1" by simp
  with st have st1: "\<bar>step - 1 / 20\<bar> \<le> 1" by linarith
  have ih': "x - (50 - real k / 20) \<le> real k / 2 ^ 36" "- (real k / 2 ^ 36) \<le> x - (50 - real k / 20)"
    using ih by (simp_all only: abs_le_iff) linarith+
  have st': "step - 1 / 20 \<le> 1 / 2 ^ 57" "- (1 / 2 ^ 57) \<le> step - 1 / 20"
    using st by (simp_all only: abs_le_iff) linarith+
  have "y \<le> 2 ^ 16" "- (2 ^ 16) \<le> y"
    using ih' d k20 k0 st' unfolding y_def by simp_all
  then have "\<bar>y\<bar> \<le> 2 ^ 16"
    by (simp add: abs_le_iff)
  then have "\<bar>y\<bar> / 2 ^ 53 \<le> 2 ^ 16 / 2 ^ 53"
    by (intro divide_right_mono) simp_all
  then have "\<bar>y\<bar> / 2 ^ 53 \<le> 1 / 2 ^ 37" by simp
  with round_double_error[of y] have r: "\<bar>round_double y - y\<bar> \<le> 1 / 2 ^ 37" by linarith
  have r': "round_double y - y \<le> 1 / 2 ^ 37" "- (1 / 2 ^ 37) \<le> round_double y - y"
    using r by (simp_all only: abs_le_iff) linarith+
  have sm: "(1::real) / 2 ^ 37 + 1 / 2 ^ 57 \<le> 1 / 2 ^ 36" by simp
  have sx: "search_x 0 (Suc k) = round_double y"
    by (simp add: y_def x_def)
  have a: "real (Suc k) / 2 ^ 36 = real k / 2 ^ 36 + 1 / 2 ^ 36"
    by (simp add: add_divide_distrib)
  have b: "real (Suc k) / 20 = real k / 20 + 1 / 20"
    by (simp add: add_divide_distrib)
  have "round_double y - (50 - (real k / 20 + 1 / 20)) \<le> real k / 2 ^ 36 + 1 / 2 ^ 36"
    "- (real k / 2 ^ 36 + 1 / 2 ^ 36) \<le> round_double y - (50 - (real k / 20 + 1 / 20))"
    using ih' st' r' sm unfolding y_def by linarith+
  then have "\<bar>round_double y - (50 - (real k / 20 + 1 / 20))\<bar> \<le> real k / 2 ^ 36 + 1 / 2 ^ 36"
    by (simp add: abs_le_iff)
  then show ?case
    by (simp only: sx a b)
qed

lemma search_x_near:
  assumes "k \<le> 2 ^ 20"
  shows "\<bar>search_x 0 k - (50 - real k / 20)\<bar> \<le> 1 / 2 ^ 16"
proof -
  have "real k / 2 ^ 36 \<le> 2 ^ 20 / 2 ^ 36"
    using assms by (intro divide_right_mono) simp_all
  also have "\<dots> = (1::real) / 2 ^ 16" by simp
  finally show ?thesis using search_x_drift[OF assms] by linarith
qed

lemma py_pow_2: "py_pow x 2 = (if float_max < x\<^sup>2 then Inl OverflowError else Inr (x\<^sup>2))"
proof -
  have "\<bar>x\<bar> powr 2 = x\<^sup>2"
    by simp
  then show ?thesis
    using float_max_pos by (auto simp: py_pow_def Let_def)
qed

lemma exp_neg_le_float_max: "0 \<le> u \<Longrightarrow> \<not> float_max < exp (- u)"
proof -
  assume "0 \<le> u"
  then have "exp (- u) \<le> 1" by simp
  then show ?thesis using float_max_pos by linarith
qed

lemma call_element_Inr: "call_element self xr yr = Inr v \<Longrightarrow> v = formula_value self xr yr"
  by (auto simp: call_element_def formula_value_def py_div_def py_cosh_def py_pow_2 py_exp_def
      split: if_splits)

lemma call_element_errors:
  "call_element self xr yr = Inl e \<Longrightarrow> e = ZeroDivisionError \<or> e = OverflowError"
  by (auto simp: call_element_def py_div_def py_cosh_def py_pow_2 py_exp_def
      split: if_splits)

lemma call_element_no_zero_div:
  "self_wavelength self \<noteq> 0 \<Longrightarrow> self_width self + self_wavelength self \<noteq> 0
    \<Longrightarrow> call_element self xr yr \<noteq> Inl ZeroDivisionError"
  by (auto simp: call_element_def py_div_def py_cosh_def py_pow_2 py_exp_def
      split: if_splits)

lemma call_loop_result:
  "distinct is \<Longrightarrow> \<forall>i\<in>set is. i < length z
   \<Longrightarrow> \<forall>i\<in>set is. call_element self (xr ! i) (yr ! i) \<noteq> Inl ZeroDivisionError
   \<Longrightarrow> \<exists>z'. call_loop self xr yr is z = Inr z' \<and> length z' = length z
         \<and> (\<forall>j<length z. z' ! j =
              (if j \<in> set is
               then (case call_element self (xr ! j) (yr ! j) of Inr v \<Rightarrow> v | Inl e \<Rightarrow> z ! j)
               else z ! j))"
proof (induction "is" arbitrary: z)
  case Nil
  then show ?case by simp
next
  case (Cons i "is")
  show ?case
  proof (cases "call_element self (xr ! i) (yr ! i)")
    case (Inl e)
    with Cons.prems call_element_errors[OF Inl] have e: "e = OverflowError" by auto
    from Cons.prems have "\<exists>z'. call_loop self xr yr is z = Inr z' \<and> length z' = length z
         \<and> (\<forall>j<length z. z' ! j =
              (if j \<in> set is
               then (case call_element self (xr ! j) (yr ! j) of Inr v \<Rightarrow> v | Inl e \<Rightarrow> z ! j)
               else z ! j))"
      by (intro Cons.IH) auto
    then obtain z' where z': "call_loop self xr yr is z = Inr z'" "length z' = length z"
      "\<forall>j<length z. z' ! j =
              (if j \<in> set is
               then (case call_element self (xr ! j) (yr ! j) of Inr v \<Rightarrow> v | Inl e \<Rightarrow> z ! j)
               else z ! j)" by blast
    show ?thesis
      using z' Inl e Cons.prems by (auto simp: )
  next
    case (Inr v)
    from Cons.prems have "\<exists>z'. call_loop self xr yr is (z[i := v]) = Inr z' \<and> length z' = length (z[i := v])
         \<and> (\<forall>j<length (z[i := v]). z' ! j =
              (if j \<in> set is
               then (case call_element self (xr ! j) (yr ! j) of Inr v \<Rightarrow> v | Inl e \<Rightarrow> (z[i := v]) ! j)
               else (z[i := v]) ! j))"
      by (intro Cons.IH) auto
    then obtain z' where z': "call_loop self xr yr is (z[i := v]) = Inr z'" "length z' = length z"
      "\<forall>j<length z. z' ! j =
              (if j \<in> set is
               then (case call_element self (xr ! j) (yr ! j) of Inr v \<Rightarrow> v | Inl e \<Rightarrow> (z[i := v]) ! j)
               else (z[i := v]) ! j)" by auto
    show ?thesis
      using z' Inr Cons.prems by (auto simp: nth_list_update split: sum.splits)
  qed
qed

lemma rotation_alpha:
  "rotation (self_alpha self) (self_x0 self, self_y0 self) (x, y)
     = (rotate_x self x y, rotate_y self x y)"
  by (simp add: rotation_def rotate_x_def rotate_y_def)

lemma call_unfold:
  "length x = length y \<Longrightarrow>
   Double_gaussian_call self x y =
     call_loop self (map2 (rotate_x self) x y) (map2 (rotate_y self) x y) [0..<length x]
       (replicate (length x) 0)"
  by (simp add: Double_gaussian_call_def Let_def)

lemma call_result:
  assumes len: "length x = length y"
    and nz: "\<forall>i<length x. call_element self (rotate_x self (x ! i) (y ! i)) (rotate_y self (x ! i) (y ! i))
                \<noteq> Inl ZeroDivisionError"
  shows "\<exists>z. Double_gaussian_call self x y = Inr z \<and> length z = length x
           \<and> (\<forall>i<length x. z ! i = point_value self (x ! i) (y ! i))"
proof -
  let ?xr = "map2 (rotate_x self) x y" and ?yr = "map2 (rotate_y self) x y"
  let ?z0 = "replicate (length x) (0::real)"
  have nth: "\<And>i. i < length x \<Longrightarrow> ?xr ! i = rotate_x self (x ! i) (y ! i)
                \<and> ?yr ! i = rotate_y self (x ! i) (y ! i)"
    using len by simp
  have "\<exists>z'. call_loop self ?xr ?yr [0..<length x] ?z0 = Inr z' \<and> length z' = length ?z0
         \<and> (\<forall>j<length ?z0. z' ! j =
              (if j \<in> set [0..<length x]
               then (case call_element self (?xr ! j) (?yr ! j) of Inr v \<Rightarrow> v | Inl e \<Rightarrow> ?z0 ! j)
               else ?z0 ! j))"
  proof (rule call_loop_result)
    show "distinct [0..<length x]" by simp
    show "\<forall>i\<in>set [0..<length x]. i < length ?z0" by simp
    show "\<forall>i\<in>set [0..<length x]. call_element self (?xr ! i) (?yr ! i) \<noteq> Inl ZeroDivisionError"
      using nz nth by simp
  qed
  then obtain z' where z': "call_loop self ?xr ?yr [0..<length x] ?z0 = Inr z'"
    "length z' = length x"
    "\<forall>j<length x. z' ! j =
       (case call_element self (?xr ! j) (?yr ! j) of Inr v \<Rightarrow> v | Inl e \<Rightarrow> ?z0 ! j)"
    by auto
  have "\<forall>i<length x. z' ! i = point_value self (x ! i) (y ! i)"
  proof (intro allI impI)
    fix i assume i: "i < length x"
    with z'(3) have "z' ! i = (case call_element self (?xr ! i) (?yr ! i) of Inr v \<Rightarrow> v | Inl e \<Rightarrow> ?z0 ! i)"
      by blast
    then show "z' ! i = point_value self (x ! i) (y ! i)"
      using nth[OF i] i by (simp add: point_value_def split: sum.splits)
  qed
  with z' call_unfold[OF len] show ?thesis by auto
qed


lemma call_loop_error: "call_loop self xr yr is z = Inl e \<Longrightarrow> e = ZeroDivisionError"
proof (induction "is" arbitrary: z)
  case Nil
  then show ?case by simp
next
  case (Cons i "is")
  then show ?case
    using call_element_errors by (fastforce split: sum.splits if_splits)
qed

section \<open>Claims about the evaluator\<close>

text \<open>
  Claim C1, amended. For an evaluator with \<open>wavelength \<noteq> 0\<close> and
  \<open>width + wavelength \<noteq> 0\<close> and equal-length sequences \<open>x\<close> and \<open>y\<close>, \<^verbatim>\<open>__call__\<close>
  returns a sequence of the same length; its \<open>i\<close>-th element depends only on
  \<open>(x\<^sub>i, y\<^sub>i)\<close> and the evaluator's fields, and where no overflow occurs it is the
  closed form at \<open>(x\<^sub>i, y\<^sub>i)\<close> rotated by \<open>+ alpha\<close> degrees, counter-clockwise, about
  \<open>(x0, y0)\<close>.
\<close>

theorem call_formula:
  assumes "length x = length y"
    and "self_wavelength self \<noteq> 0"
    and "self_width self + self_wavelength self \<noteq> 0"
  shows "\<exists>z. Double_gaussian_call self x y = Inr z \<and> length z = length x
           \<and> (\<forall>i<length x. z ! i = point_value self (x ! i) (y ! i)
                \<and> (case rotation (self_alpha self) (self_x0 self, self_y0 self) (x ! i, y ! i) of
                      (xr, yr) \<Rightarrow>
                        call_element self xr yr \<noteq> Inl OverflowError
                        \<longrightarrow> z ! i = formula_value self xr yr))"
proof -
  have nzd: "call_element self xr yr \<noteq> Inl ZeroDivisionError" for xr yr
    by (rule call_element_no_zero_div[OF assms(2,3)])
  then have nz: "\<forall>i<length x. call_element self (rotate_x self (x ! i) (y ! i)) (rotate_y self (x ! i) (y ! i))
                \<noteq> Inl ZeroDivisionError"
    by simp
  from call_result[OF assms(1) nz] obtain z where z1: "Double_gaussian_call self x y = Inr z"
    and z2: "length z = length x"
    and z3: "\<forall>i<length x. z ! i = point_value self (x ! i) (y ! i)" by blast
  have z4: "case rotation (self_alpha self) (self_x0 self, self_y0 self) (x ! i, y ! i) of
          (xr, yr) \<Rightarrow> call_element self xr yr \<noteq> Inl OverflowError
                        \<longrightarrow> z ! i = formula_value self xr yr"
    if i: "i < length x" for i
  proof -
    let ?xr = "rotate_x self (x ! i) (y ! i)" and ?yr = "rotate_y self (x ! i) (y ! i)"
    have zi: "z ! i = point_value self (x ! i) (y ! i)"
      using z3 i by simp
    have "z ! i = formula_value self ?xr ?yr" if no: "call_element self ?xr ?yr \<noteq> Inl OverflowError"
    proof (cases "call_element self ?xr ?yr")
      case (Inl e)
      from call_element_errors[OF Inl] have "e = ZeroDivisionError \<or> e = OverflowError" .
      with Inl no nzd[of ?xr ?yr] show ?thesis by auto
    next
      case (Inr v)
      from call_element_Inr[OF Inr] have "v = formula_value self ?xr ?yr" .
      with zi Inr show ?thesis by (simp add: point_value_def)
    qed
    then show ?thesis unfolding rotation_alpha by simp
  qed
  show ?thesis
  proof (intro exI[of _ z] conjI allI impI)
    show "Double_gaussian_call self x y = Inr z" by (rule z1)
    show "length z = length x" by (rule z2)
    show "z ! i = point_value self (x ! i) (y ! i)" if "i < length x" for i
      using z3 that by simp
    show "case rotation (self_alpha self) (self_x0 self, self_y0 self) (x ! i, y ! i) of
          (xr, yr) \<Rightarrow> call_element self xr yr \<noteq> Inl OverflowError
                        \<longrightarrow> z ! i = formula_value self xr yr" if "i < length x" for i
      using z4 that by simp
  qed
qed

lemma float_exp_small [simp]: "float_exp 0 = 1" "float_exp (- 1) = exp (- 1)"
  "float_exp (- 4) = exp (- 4)"
  by (simp_all add: float_exp_eq)

lemma example_element_centre:
  "call_element example_evaluator 0 0 = Inr (- (1 - 4/5 * exp (- 1)))"
  using float_max_pos exp_neg_le_float_max[of 1] exp_neg_le_float_max[of 0]
  by (simp add: call_element_def example_evaluator_def py_div_def py_cosh_def py_pow_2 py_exp_def)

text \<open>The theorem at the centre of \<open>example_evaluator\<close>.\<close>

theorem call_formula_witness:
  "Double_gaussian_call example_evaluator [0] [0] = Inr [- (1 - 4/5 * exp (- 1))]"
proof -
  have rot: "rotation (self_alpha example_evaluator)
               (self_x0 example_evaluator, self_y0 example_evaluator) (0, 0) = (0, 0)"
    by (simp add: rotation_def example_evaluator_def radians_def)
  from call_formula[of "[0]" "[0]" example_evaluator]
  obtain z where z: "Double_gaussian_call example_evaluator [0] [0] = Inr z" "length z = 1"
    "call_element example_evaluator 0 0 \<noteq> Inl OverflowError
       \<longrightarrow> z ! 0 = formula_value example_evaluator 0 0"
    using rot by (auto simp: example_evaluator_def)
  from z(3) have "z ! 0 = - (1 - 4/5 * exp (- 1))"
    using call_element_Inr[OF example_element_centre] by (simp add: example_element_centre)
  with z(2) have "z = [- (1 - 4/5 * exp (- 1))]"
    by (cases z) auto
  with z(1) show ?thesis by simp
qed

lemma radians_90: "radians 90 = pi / 2" "radians (- 90) = - (pi / 2)"
  by (simp_all add: radians_def)

lemma example_element_quarter:
  "call_element (example_evaluator\<lparr>self_alpha := a\<rparr>) (- 1) 0
     = Inr (- (exp (- 1) - 4/5 * exp (- 4)))"
  "call_element (example_evaluator\<lparr>self_alpha := a\<rparr>) 1 0 = Inr (- (exp (- 1) - 4/5))"
  using float_max_pos exp_neg_le_float_max[of 1] exp_neg_le_float_max[of 0]
    exp_neg_le_float_max[of 4]
  by (simp_all add: call_element_def example_evaluator_def py_div_def py_cosh_def py_pow_2
      py_exp_def float_max_def)

lemma example_values_differ: "exp (- 1) - 4/5 * exp (- 4) \<noteq> exp (- 1) - (4/5::real)"
proof -
  have "exp (- 4 :: real) < 1" by simp
  then show ?thesis by simp
qed

text \<open>
  Claim C1 as stated fails in two ways. For an evaluator with \<open>wavelength = 0\<close> the
  division by the wavelength raises \<^verbatim>\<open>ZeroDivisionError\<close>, which the \<^verbatim>\<open>try\<close> does not
  catch. And the point at which the closed form is evaluated is the input rotated by
  \<open>+ alpha\<close>, not by \<open>- alpha\<close>: with \<open>alpha = 90\<close> the element for the input \<open>(0, 1)\<close> is
  the closed form at \<open>(- 1, 0)\<close>, and differs from the closed form at \<open>(1, 0)\<close>, the
  input rotated by \<open>- 90\<close> degrees.
\<close>

theorem call_formula_counterexample:
  "Double_gaussian_call
     \<lparr>self_a3D = 1, self_wavelength = 0, self_width = 1, self_x0 = 0, self_y0 = 0,
      self_alpha = 0, self_kappa = 3, self_kappad = 4/5, self_scale = 1, self_dx = 0\<rparr>
     [0] [0] = Inl ZeroDivisionError
   \<and> Double_gaussian_call (example_evaluator\<lparr>self_alpha := 90\<rparr>) [0] [1]
       = Inr [- (exp (- 1) - 4/5 * exp (- 4))]
   \<and> rotation (- 90) (0, 0) (0, 1) = (1, 0)
   \<and> call_element (example_evaluator\<lparr>self_alpha := 90\<rparr>) 1 0 \<noteq> Inl OverflowError
   \<and> formula_value (example_evaluator\<lparr>self_alpha := 90\<rparr>) 1 0 = - (exp (- 1) - 4/5)
   \<and> exp (- 1) - 4/5 * exp (- 4) \<noteq> exp (- 1) - (4/5::real)"
proof -
  have 1: "Double_gaussian_call
     \<lparr>self_a3D = 1, self_wavelength = 0, self_width = 1, self_x0 = 0, self_y0 = 0,
      self_alpha = 0, self_kappa = 3, self_kappad = 4/5, self_scale = 1, self_dx = 0\<rparr>
     [0] [0] = Inl ZeroDivisionError"
    using float_max_pos
    by (simp add: Double_gaussian_call_def rotate_x_def rotate_y_def radians_def call_element_def
        py_div_def py_cosh_def py_pow_2)
  have rot: "rotate_x (example_evaluator\<lparr>self_alpha := 90\<rparr>) 0 1 = - 1"
    "rotate_y (example_evaluator\<lparr>self_alpha := 90\<rparr>) 0 1 = 0"
    by (simp_all add: rotate_x_def rotate_y_def example_evaluator_def radians_90)
  have 2: "Double_gaussian_call (example_evaluator\<lparr>self_alpha := 90\<rparr>) [0] [1]
       = Inr [- (exp (- 1) - 4/5 * exp (- 4))]"
    by (simp add: Double_gaussian_call_def Let_def rot example_element_quarter)
  have 3: "rotation (- 90) (0, 0) (0, 1) = (1, 0)"
    by (simp add: rotation_def radians_90)
  have 4: "call_element (example_evaluator\<lparr>self_alpha := 90\<rparr>) 1 0 \<noteq> Inl OverflowError"
    by (simp add: example_element_quarter)
  have 5: "formula_value (example_evaluator\<lparr>self_alpha := 90\<rparr>) 1 0 = - (exp (- 1) - 4/5)"
    by (simp add: formula_value_def example_evaluator_def)
  from 1 2 3 4 5 example_values_differ show ?thesis by blast
qed







lemma call_element_alpha [simp]:
  "call_element (self\<lparr>self_alpha := a\<rparr>) xr yr = call_element self xr yr"
  by (simp add: call_element_def)

lemma call_loop_alpha [simp]:
  "call_loop (self\<lparr>self_alpha := a\<rparr>) xr yr is z = call_loop self xr yr is z"
  by (induction "is" arbitrary: z) (simp_all split: sum.splits)

lemma rotation_neg:
  "rotation (- a) c p =
     (fst c + (fst p - fst c) * cos (radians a) + (snd p - snd c) * sin (radians a),
      snd c - (fst p - fst c) * sin (radians a) + (snd p - snd c) * cos (radians a))"
  by (simp add: rotation_def radians_def)

lemma rotate_back:
  "rotate_x (self\<lparr>self_alpha := a\<rparr>)
      (fst (rotation (- a) (self_x0 self, self_y0 self) p))
      (snd (rotation (- a) (self_x0 self, self_y0 self) p)) = fst p"
  "rotate_y (self\<lparr>self_alpha := a\<rparr>)
      (fst (rotation (- a) (self_x0 self, self_y0 self) p))
      (snd (rotation (- a) (self_x0 self, self_y0 self) p)) = snd p"
proof -
  define c s where "c = cos (radians a)" and "s = sin (radians a)"
  have cs: "c * c + s * s = 1"
    unfolding c_def s_def using sin_cos_squared_add2[of "radians a"] by (simp add: power2_eq_square)
  define u v where "u = fst p - self_x0 self" and "v = snd p - self_y0 self"
  define x0 y0 where "x0 = self_x0 self" and "y0 = self_y0 self"
  have "((x0 + u * c + v * s) - x0) * c - ((y0 - u * s + v * c) - y0) * s + x0
          = u * (c * c + s * s) + x0"
    by (simp add: algebra_simps)
  then have x: "((x0 + u * c + v * s) - x0) * c - ((y0 - u * s + v * c) - y0) * s + x0 = u + x0"
    by (simp only: cs mult_1_right)
  have "((x0 + u * c + v * s) - x0) * s + ((y0 - u * s + v * c) - y0) * c + y0
          = v * (c * c + s * s) + y0"
    by (simp add: algebra_simps)
  then have y: "((x0 + u * c + v * s) - x0) * s + ((y0 - u * s + v * c) - y0) * c + y0 = v + y0"
    by (simp only: cs mult_1_right)
  have px: "u + x0 = fst p" and py: "v + y0 = snd p"
    by (simp_all add: u_def v_def x0_def y0_def)
  have sel: "self_x0 (self\<lparr>self_alpha := a\<rparr>) = self_x0 self"
    "self_y0 (self\<lparr>self_alpha := a\<rparr>) = self_y0 self"
    "self_alpha (self\<lparr>self_alpha := a\<rparr>) = a"
    by simp_all
  show "rotate_x (self\<lparr>self_alpha := a\<rparr>)
      (fst (rotation (- a) (self_x0 self, self_y0 self) p))
      (snd (rotation (- a) (self_x0 self, self_y0 self) p)) = fst p"
    unfolding rotate_x_def rotation_neg
    using x px by (simp only: sel fst_conv snd_conv c_def s_def u_def v_def x0_def y0_def)
  show "rotate_y (self\<lparr>self_alpha := a\<rparr>)
      (fst (rotation (- a) (self_x0 self, self_y0 self) p))
      (snd (rotation (- a) (self_x0 self, self_y0 self) p)) = snd p"
    unfolding rotate_y_def rotation_neg
    using y py by (simp only: sel fst_conv snd_conv c_def s_def u_def v_def x0_def y0_def)
qed

lemma rotate_alpha_zero:
  "rotate_x (self\<lparr>self_alpha := 0\<rparr>) x y = x" "rotate_y (self\<lparr>self_alpha := 0\<rparr>) x y = y"
  by (simp_all add: rotate_x_def rotate_y_def radians_def)

lemma map2_maps: "map2 f (map g ps) (map h ps) = map (\<lambda>p. f (g p) (h p)) ps"
  by (induction ps) simp_all

text \<open>
  Claim C7, amended. The evaluator with \<open>alpha = a\<close>, at the images of the points \<open>ps\<close>
  under the rotation by \<open>- a\<close> degrees about \<open>(x0, y0)\<close> (that is, by \<open>a\<close> degrees
  clockwise), gives what the evaluator with \<open>alpha = 0\<close> gives at the points themselves.
  The two results are equal when the rotation is computed in exact real arithmetic.
\<close>

theorem rotation_invariance:
  "Double_gaussian_call (self\<lparr>self_alpha := a\<rparr>)
      (map (\<lambda>p. fst (rotation (- a) (self_x0 self, self_y0 self) p)) ps)
      (map (\<lambda>p. snd (rotation (- a) (self_x0 self, self_y0 self) p)) ps)
   = Double_gaussian_call (self\<lparr>self_alpha := 0\<rparr>) (map fst ps) (map snd ps)"
  by (simp add: Double_gaussian_call_def Let_def map2_maps rotate_back rotate_alpha_zero)

text \<open>
  Claim C7 as stated fails: the image of \<open>(1, 0)\<close> under the rotation by \<open>90\<close> degrees
  about the centre \<open>(0, 0)\<close> is \<open>(0, 1)\<close>, where the evaluator with \<open>alpha = 90\<close> gives the
  closed form at \<open>(- 1, 0)\<close>, which is not what the evaluator with \<open>alpha = 0\<close> gives at
  \<open>(1, 0)\<close>.
\<close>

theorem rotation_invariance_counterexample:
  "rotation 90 (self_x0 example_evaluator, self_y0 example_evaluator) (1, 0) = (0, 1)
   \<and> Double_gaussian_call (example_evaluator\<lparr>self_alpha := 90\<rparr>) [0] [1]
       = Inr [- (exp (- 1) - 4/5 * exp (- 4))]
   \<and> Double_gaussian_call (example_evaluator\<lparr>self_alpha := 0\<rparr>) [1] [0]
       = Inr [- (exp (- 1) - 4/5)]
   \<and> - (exp (- 1) - 4/5 * exp (- 4)) \<noteq> - (exp (- 1) - (4/5::real))"
proof -
  have 1: "rotation 90 (self_x0 example_evaluator, self_y0 example_evaluator) (1, 0) = (0, 1)"
    by (simp add: rotation_def radians_90 example_evaluator_def)
  have rot: "rotate_x (example_evaluator\<lparr>self_alpha := 90\<rparr>) 0 1 = - 1"
    "rotate_y (example_evaluator\<lparr>self_alpha := 90\<rparr>) 0 1 = 0"
    by (simp_all add: rotate_x_def rotate_y_def example_evaluator_def radians_90)
  have 2: "Double_gaussian_call (example_evaluator\<lparr>self_alpha := 90\<rparr>) [0] [1]
       = Inr [- (exp (- 1) - 4/5 * exp (- 4))]"
    by (simp add: Double_gaussian_call_def Let_def rot example_element_quarter
        del: call_element_alpha)
  have 3: "Double_gaussian_call (example_evaluator\<lparr>self_alpha := 0\<rparr>) [1] [0]
       = Inr [- (exp (- 1) - 4/5)]"
    by (simp add: Double_gaussian_call_def Let_def rotate_alpha_zero example_element_quarter
        del: call_element_alpha)
  from example_values_differ
  have 4: "- (exp (- 1) - 4/5 * exp (- 4)) \<noteq> - (exp (- 1) - (4/5::real))"
    by simp
  from 1 2 3 4 show ?thesis by blast
qed

lemma dx_formula_ok:
  assumes "a3D \<noteq> 0" "0 < zsmall / a3D" "zsmall / a3D \<le> 1"
  shows "dx_formula wavelength zsmall a3D = Inr (0.4 * wavelength * sqrt (- ln (zsmall / a3D)))"
proof -
  have "ln (zsmall / a3D) \<le> 0"
    using assms(2,3) by simp
  then show ?thesis
    using assms by (simp add: dx_formula_def py_div_def py_log_e_def py_sqrt_def)
qed

lemma dx_formula_zero: "dx_formula wavelength zsmall 0 = Inl ZeroDivisionError"
  by (simp add: dx_formula_def py_div_def)

lemma dx_formula_nonpos:
  "a3D \<noteq> 0 \<Longrightarrow> zsmall / a3D \<le> 0 \<Longrightarrow> dx_formula wavelength zsmall a3D = Inl ValueError"
  by (simp add: dx_formula_def py_div_def py_log_e_def)

lemma dx_formula_gt_one:
  "a3D \<noteq> 0 \<Longrightarrow> 1 < zsmall / a3D \<Longrightarrow> dx_formula wavelength zsmall a3D = Inl ValueError"
  by (simp add: dx_formula_def py_div_def py_log_e_def py_sqrt_def)

lemma dx_formula_returns_iff:
  "(\<exists>d. dx_formula wavelength zsmall a3D = Inr d)
     \<longleftrightarrow> a3D \<noteq> 0 \<and> 0 < zsmall / a3D \<and> zsmall / a3D \<le> 1"
proof (cases "a3D = 0")
  case True
  then show ?thesis by (simp add: dx_formula_zero)
next
  case False
  consider "zsmall / a3D \<le> 0" | "0 < zsmall / a3D" "zsmall / a3D \<le> 1" | "1 < zsmall / a3D"
    by linarith
  then show ?thesis
  proof cases
    case 1
    with False show ?thesis by (simp add: dx_formula_nonpos)
  next
    case 2
    from dx_formula_ok[OF False 2] have "\<exists>d. dx_formula wavelength zsmall a3D = Inr d"
      by blast
    with False 2 show ?thesis by blast
  next
    case 3
    with False show ?thesis by (simp add: dx_formula_gt_one)
  qed
qed

text \<open>
  Claim C4, amended. Provided \<open>a3D \<noteq> 0\<close> and \<open>0 < zsmall / a3D \<le> 1\<close>, construction
  without \<open>dx\<close> and \<^verbatim>\<open>determineDX\<close> set \<open>dx\<close> to
  \<open>0.4 * wavelength * sqrt (- ln (zsmall / a3D))\<close>; construction with \<open>dx\<close> stores it, so
  \<open>dx\<close> is a number in every evaluator that exists; \<^verbatim>\<open>determineDX\<close> returns the new
  offset and changes no other field.
\<close>

theorem dx_resolved:
  "(a3D \<noteq> 0 \<and> 0 < zsmall / a3D \<and> zsmall / a3D \<le> 1 \<longrightarrow>
      Double_gaussian_init a3D wavelength width x0 y0 alpha kappa kappad zsmall None scale
        = Inr \<lparr>self_a3D = a3D, self_wavelength = wavelength, self_width = width,
               self_x0 = x0, self_y0 = y0, self_alpha = alpha, self_kappa = kappa,
               self_kappad = kappad, self_scale = scale,
               self_dx = 0.4 * wavelength * sqrt (- ln (zsmall / a3D))\<rparr>)
   \<and> Double_gaussian_init a3D wavelength width x0 y0 alpha kappa kappad zsmall (Some d) scale
        = Inr \<lparr>self_a3D = a3D, self_wavelength = wavelength, self_width = width,
               self_x0 = x0, self_y0 = y0, self_alpha = alpha, self_kappa = kappa,
               self_kappad = kappad, self_scale = scale, self_dx = d\<rparr>
   \<and> (self_a3D self \<noteq> 0 \<and> 0 < zs / self_a3D self \<and> zs / self_a3D self \<le> 1 \<longrightarrow>
      determineDX self zs
        = Inr (0.4 * self_wavelength self * sqrt (- ln (zs / self_a3D self)),
               self\<lparr>self_dx := 0.4 * self_wavelength self * sqrt (- ln (zs / self_a3D self))\<rparr>))"
proof (intro conjI impI)
  assume "a3D \<noteq> 0 \<and> 0 < zsmall / a3D \<and> zsmall / a3D \<le> 1"
  then have "dx_formula wavelength zsmall a3D = Inr (0.4 * wavelength * sqrt (- ln (zsmall / a3D)))"
    by (intro dx_formula_ok) simp_all
  then show "Double_gaussian_init a3D wavelength width x0 y0 alpha kappa kappad zsmall None scale
        = Inr \<lparr>self_a3D = a3D, self_wavelength = wavelength, self_width = width,
               self_x0 = x0, self_y0 = y0, self_alpha = alpha, self_kappa = kappa,
               self_kappad = kappad, self_scale = scale,
               self_dx = 0.4 * wavelength * sqrt (- ln (zsmall / a3D))\<rparr>"
    by (simp only: Double_gaussian_init_def option.case bnd_Inr)
next
  show "Double_gaussian_init a3D wavelength width x0 y0 alpha kappa kappad zsmall (Some d) scale
        = Inr \<lparr>self_a3D = a3D, self_wavelength = wavelength, self_width = width,
               self_x0 = x0, self_y0 = y0, self_alpha = alpha, self_kappa = kappa,
               self_kappad = kappad, self_scale = scale, self_dx = d\<rparr>"
    by (simp only: Double_gaussian_init_def option.case bnd_Inr)
next
  assume "self_a3D self \<noteq> 0 \<and> 0 < zs / self_a3D self \<and> zs / self_a3D self \<le> 1"
  then have "dx_formula (self_wavelength self) zs (self_a3D self)
               = Inr (0.4 * self_wavelength self * sqrt (- ln (zs / self_a3D self)))"
    by (intro dx_formula_ok) simp_all
  then show "determineDX self zs
        = Inr (0.4 * self_wavelength self * sqrt (- ln (zs / self_a3D self)),
               self\<lparr>self_dx := 0.4 * self_wavelength self * sqrt (- ln (zs / self_a3D self))\<rparr>)"
    by (simp only: determineDX_def bnd_Inr)
qed

text \<open>Both hypotheses hold for \<open>a3D = 1\<close> with \<open>zsmall = 1/100\<close> and \<open>zsmall = 1/2\<close>.\<close>

theorem dx_resolved_witness:
  "Double_gaussian_init 1 10 5 0 0 0 3 (4/5) (1/100) None 2
     = Inr \<lparr>self_a3D = 1, self_wavelength = 10, self_width = 5, self_x0 = 0, self_y0 = 0,
            self_alpha = 0, self_kappa = 3, self_kappad = 4/5, self_scale = 2,
            self_dx = 0.4 * 10 * sqrt (- ln (1/100 / 1))\<rparr>
   \<and> determineDX example_evaluator (1/2)
     = Inr (0.4 * 1 * sqrt (- ln (1/2 / 1)),
            example_evaluator\<lparr>self_dx := 0.4 * 1 * sqrt (- ln (1/2 / 1))\<rparr>)"
proof -
  have sel: "self_a3D example_evaluator = 1" "self_wavelength example_evaluator = 1"
    by (simp_all add: example_evaluator_def)
  have pre1: "(1::real) \<noteq> 0 \<and> (0::real) < 1/100 / 1 \<and> (1/100 / 1 :: real) \<le> 1"
    by simp
  have pre2: "self_a3D example_evaluator \<noteq> 0 \<and> 0 < 1/2 / self_a3D example_evaluator
                \<and> 1/2 / self_a3D example_evaluator \<le> 1"
    by (simp add: sel)
  from dx_resolved[of 1 "1/100" 10 5 0 0 0 3 "4/5" 2 0 example_evaluator "1/2"] pre1 pre2
  show ?thesis
    by (simp only: sel) blast
qed

text \<open>
  Claim C4 as stated fails: with \<open>a3D = 1\<close> and \<open>zsmall = 3\<close> the call of \<^verbatim>\<open>determineDX\<close>
  raises \<^verbatim>\<open>ValueError\<close>, and so does the construction without \<open>dx\<close>; no \<open>dx\<close> is set or
  returned.
\<close>

theorem dx_resolved_counterexample:
  "determineDX example_evaluator 3 = Inl ValueError
   \<and> Double_gaussian_init 1 10 5 0 0 0 3 (4/5) 3 None 1 = Inl ValueError"
proof -
  have "dx_formula w 3 1 = Inl ValueError" for w
    by (rule dx_formula_gt_one) simp_all
  then show ?thesis
    by (simp add: determineDX_def Double_gaussian_init_def example_evaluator_def)
qed

text \<open>
  Claim C10. Construction without \<open>dx\<close>, and \<^verbatim>\<open>determineDX\<close>, return exactly when
  \<open>a3D \<noteq> 0\<close> and \<open>0 < zsmall / a3D \<le> 1\<close>; for \<open>0 < a3D < zsmall\<close>, and for \<open>a3D\<close> and
  \<open>zsmall\<close> of opposite signs, they raise \<^verbatim>\<open>ValueError\<close>.
\<close>

theorem dx_precondition:
  "((\<exists>self. Double_gaussian_init a3D wavelength width x0 y0 alpha kappa kappad zsmall None scale = Inr self)
      \<longleftrightarrow> a3D \<noteq> 0 \<and> 0 < zsmall / a3D \<and> zsmall / a3D \<le> 1)
   \<and> ((\<exists>r. determineDX self zsmall = Inr r)
      \<longleftrightarrow> self_a3D self \<noteq> 0 \<and> 0 < zsmall / self_a3D self \<and> zsmall / self_a3D self \<le> 1)
   \<and> (0 < a3D \<and> a3D < zsmall \<longrightarrow>
        Double_gaussian_init a3D wavelength width x0 y0 alpha kappa kappad zsmall None scale
          = Inl ValueError)
   \<and> (zsmall * a3D < 0 \<longrightarrow>
        Double_gaussian_init a3D wavelength width x0 y0 alpha kappa kappad zsmall None scale
          = Inl ValueError)
   \<and> (0 < self_a3D self \<and> self_a3D self < zsmall \<longrightarrow> determineDX self zsmall = Inl ValueError)
   \<and> (zsmall * self_a3D self < 0 \<longrightarrow> determineDX self zsmall = Inl ValueError)"
proof -
  have init: "Double_gaussian_init a3D wavelength width x0 y0 alpha kappa kappad zsmall None scale
                = bnd (dx_formula wavelength zsmall a3D) (\<lambda>d.
                    Inr \<lparr>self_a3D = a3D, self_wavelength = wavelength, self_width = width,
                         self_x0 = x0, self_y0 = y0, self_alpha = alpha, self_kappa = kappa,
                         self_kappad = kappad, self_scale = scale, self_dx = d\<rparr>)"
    by (simp add: Double_gaussian_init_def)
  have gt: "dx_formula w zsmall a = Inl ValueError" if "0 < a \<and> a < zsmall" for a w
    using that by (intro dx_formula_gt_one) simp_all
  have opp: "dx_formula w zsmall a = Inl ValueError" if "zsmall * a < 0" for a w
  proof -
    from that have "a \<noteq> 0" by auto
    moreover from that have "zsmall / a < 0"
      by (simp add: divide_less_0_iff mult_less_0_iff)
    ultimately show ?thesis by (intro dx_formula_nonpos) simp_all
  qed
  have a: "(\<exists>self. Double_gaussian_init a3D wavelength width x0 y0 alpha kappa kappad zsmall None scale = Inr self)
      \<longleftrightarrow> (\<exists>d. dx_formula wavelength zsmall a3D = Inr d)"
    unfolding init by (cases "dx_formula wavelength zsmall a3D") simp_all
  have b: "(\<exists>r. determineDX self zsmall = Inr r)
      \<longleftrightarrow> (\<exists>d. dx_formula (self_wavelength self) zsmall (self_a3D self) = Inr d)"
    unfolding determineDX_def
    by (cases "dx_formula (self_wavelength self) zsmall (self_a3D self)") simp_all
  show ?thesis
    unfolding a b dx_formula_returns_iff
    by (auto simp: init determineDX_def gt opp)
qed

text \<open>Instances of each failure, and of a successful call.\<close>

theorem dx_precondition_witness:
  "Double_gaussian_init 1 10 5 0 0 0 3 (4/5) 2 None 1 = Inl ValueError
   \<and> Double_gaussian_init (- 1) 10 5 0 0 0 3 (4/5) 1 None 1 = Inl ValueError
   \<and> determineDX example_evaluator 2 = Inl ValueError
   \<and> determineDX example_evaluator (- 1) = Inl ValueError
   \<and> (\<exists>r. determineDX example_evaluator (1/2) = Inr r)"
proof -
  have sel: "self_a3D example_evaluator = 1"
    by (simp add: example_evaluator_def)
  have 1: "Double_gaussian_init 1 10 5 0 0 0 3 (4/5) 2 None 1 = Inl ValueError"
    using dx_precondition[of 1 10 5 0 0 0 3 "4/5" 2 1 example_evaluator] by simp
  have 2: "Double_gaussian_init (- 1) 10 5 0 0 0 3 (4/5) 1 None 1 = Inl ValueError"
    using dx_precondition[of "- 1" 10 5 0 0 0 3 "4/5" 1 1 example_evaluator] by simp
  have 3: "determineDX example_evaluator 2 = Inl ValueError"
    using dx_precondition[of 1 10 5 0 0 0 3 "4/5" 2 1 example_evaluator] by (simp add: sel)
  have 4: "determineDX example_evaluator (- 1) = Inl ValueError"
    using dx_precondition[of 1 10 5 0 0 0 3 "4/5" "- 1" 1 example_evaluator] by (simp add: sel)
  have 5: "\<exists>r. determineDX example_evaluator (1/2) = Inr r"
    using dx_precondition[of 1 10 5 0 0 0 3 "4/5" "1/2" 1 example_evaluator] by (simp add: sel)
  from 1 2 3 4 5 show ?thesis by blast
qed

section \<open>Claims about the extremum search\<close>

declare find_min_loop.simps [simp del]

lemma exp_neg_sq_ok [simp]: "\<not> float_max < exp (- (u\<^sup>2))"
  by (rule exp_neg_le_float_max) simp

lemma deriv_expr_Inr_iff:
  "deriv_expr x0 wa kappad dx x = Inr d \<longleftrightarrow>
     wa \<noteq> 0 \<and> ((x - x0) / wa)\<^sup>2 \<le> float_max \<and> ((x - dx - x0) / wa)\<^sup>2 \<le> float_max
       \<and> d = deriv_fun x0 wa kappad dx x"
  by (auto simp: deriv_expr_def deriv_fun_def py_div_def py_pow_2 py_exp_def)

lemma g_expr_Inr_iff:
  "g_expr x0 wa kappad dx x = Inr v \<longleftrightarrow>
     wa \<noteq> 0 \<and> ((x - x0) / wa)\<^sup>2 \<le> float_max \<and> ((x - dx - x0) / wa)\<^sup>2 \<le> float_max
       \<and> v = g_fun x0 wa kappad dx x"
  by (auto simp: g_expr_def g_fun_def py_div_def py_pow_2 py_exp_def)

lemma g_expr_of_deriv_expr:
  "deriv_expr x0 wa kappad dx x = Inr d \<Longrightarrow> g_expr x0 wa kappad dx x = Inr (g_fun x0 wa kappad dx x)"
  by (simp add: deriv_expr_Inr_iff g_expr_Inr_iff)

lemma search_x_Suc: "search_x x0 (Suc k) = round_double (search_x x0 k - step)"
  by simp

lemma initial_state_search:
  "initial_state x0 = \<lparr>st_c = 0, st_deriv = 10, st_x = search_x x0 0, st_xstar = None\<rparr>"
  by (simp add: initial_state_def)

lemma search_x_0: "search_x 0 0 = 50"
  by (simp add: round_double_50)

lemma abs_boundsD: "\<bar>a - b\<bar> \<le> c \<Longrightarrow> b - c \<le> a \<and> a \<le> b + c" for a b c :: real
  by (auto simp: abs_le_iff)

lemma search_x_bounds:
  assumes "k \<le> 2 ^ 20"
  shows "50 - real k / 20 - 1 / 2 ^ 16 \<le> search_x 0 k"
    and "search_x 0 k \<le> 50 - real k / 20 + 1 / 2 ^ 16"
  using abs_boundsD[OF search_x_near[OF assms]] by blast+

lemma float_exp_neg_sq: "u\<^sup>2 \<le> 650 \<Longrightarrow> float_exp (- (u\<^sup>2)) = exp (- (u\<^sup>2))"
  by (rule float_exp_eq) simp

lemma no_underflow_values:
  assumes "no_underflow x0 wa dx x"
  shows "g_fun x0 wa kappad dx x = g_exact x0 wa kappad dx x"
    and "deriv_fun x0 wa kappad dx x
           = (x - x0) * exp (- ((x - x0) / wa)\<^sup>2)
             - kappad * (x - dx - x0) * exp (- ((x - dx - x0) / wa)\<^sup>2)"
  using assms by (simp_all add: no_underflow_def g_fun_def g_exact_def deriv_fun_def float_exp_def)

lemma no_underflowI:
  assumes "((x - x0) / wa)\<^sup>2 \<le> 650" "((x - dx - x0) / wa)\<^sup>2 \<le> 650"
  shows "no_underflow x0 wa dx x"
proof -
  have "float_exp (- (((x - x0) / wa)\<^sup>2)) = exp (- (((x - x0) / wa)\<^sup>2))"
    "float_exp (- (((x - dx - x0) / wa)\<^sup>2)) = exp (- (((x - dx - x0) / wa)\<^sup>2))"
    using assms by (simp_all only: float_exp_neg_sq)
  then show ?thesis
    by (simp add: no_underflow_def float_exp_def split: if_splits)
qed

lemma loop_step_positive:
  assumes "k < count_max" "0 < d" "deriv_expr x0 wa kappad dx (search_x x0 k) = Inr d'" "0 < d'"
  shows "find_min_loop x0 wa kappad dx \<lparr>st_c = k, st_deriv = d, st_x = search_x x0 k, st_xstar = xs\<rparr>
         = find_min_loop x0 wa kappad dx
             \<lparr>st_c = Suc k, st_deriv = d', st_x = search_x x0 (Suc k), st_xstar = xs\<rparr>"
  using assms
  by (subst find_min_loop.simps) (simp add: search_x_Suc)

lemma loop_step_nonpositive:
  assumes "k < count_max" "0 < d" "deriv_expr x0 wa kappad dx (search_x x0 k) = Inr d'" "d' \<le> 0"
  shows "find_min_loop x0 wa kappad dx \<lparr>st_c = k, st_deriv = d, st_x = search_x x0 k, st_xstar = xs\<rparr>
         = Inr \<lparr>st_c = Suc k, st_deriv = d', st_x = search_x x0 (Suc k),
                st_xstar = Some (search_x x0 k)\<rparr>"
proof -
  have "find_min_loop x0 wa kappad dx \<lparr>st_c = k, st_deriv = d, st_x = search_x x0 k, st_xstar = xs\<rparr>
         = find_min_loop x0 wa kappad dx
             \<lparr>st_c = Suc k, st_deriv = d', st_x = search_x x0 (Suc k),
              st_xstar = Some (search_x x0 k)\<rparr>"
    using assms
    by (subst find_min_loop.simps) (simp add: search_x_Suc)
  also have "\<dots> = Inr \<lparr>st_c = Suc k, st_deriv = d', st_x = search_x x0 (Suc k),
                st_xstar = Some (search_x x0 k)\<rparr>"
    using assms(4) by (subst find_min_loop.simps) simp
  finally show ?thesis .
qed

lemma loop_step_error:
  assumes "k < count_max" "0 < d" "deriv_expr x0 wa kappad dx (search_x x0 k) = Inl e"
  shows "find_min_loop x0 wa kappad dx \<lparr>st_c = k, st_deriv = d, st_x = search_x x0 k, st_xstar = xs\<rparr>
         = Inl e"
  using assms
  by (subst find_min_loop.simps) simp

lemma loop_cap:
  "find_min_loop x0 wa kappad dx \<lparr>st_c = count_max, st_deriv = d, st_x = x, st_xstar = xs\<rparr>
     = Inr \<lparr>st_c = count_max, st_deriv = d, st_x = x, st_xstar = xs\<rparr>"
  by (subst find_min_loop.simps) simp

lemma positive_atD:
  "positive_at x0 wa kappad dx j \<Longrightarrow> \<exists>d>0. deriv_expr x0 wa kappad dx (search_x x0 j) = Inr d"
  by (auto simp: positive_at_def split: sum.splits)

lemma loop_run:
  assumes "n \<le> count_max" "k \<le> n" "0 < d"
    and "\<forall>j. k \<le> j \<and> j < n \<longrightarrow> positive_at x0 wa kappad dx j"
  shows "\<exists>d'>0. find_min_loop x0 wa kappad dx
                  \<lparr>st_c = k, st_deriv = d, st_x = search_x x0 k, st_xstar = xs\<rparr>
               = find_min_loop x0 wa kappad dx
                  \<lparr>st_c = n, st_deriv = d', st_x = search_x x0 n, st_xstar = xs\<rparr>"
  using assms(2,3,4)
proof (induction "n - k" arbitrary: k d)
  case 0
  then have "k = n" by simp
  with "0.prems"(2) show ?case by auto
next
  case (Suc m)
  then have kn: "k < n" by simp
  with Suc.prems(3) have "positive_at x0 wa kappad dx k" by simp
  from positive_atD[OF this] obtain d1 where d1: "0 < d1"
    "deriv_expr x0 wa kappad dx (search_x x0 k) = Inr d1" by blast
  from kn assms(1) have kc: "k < count_max" by simp
  have step1: "find_min_loop x0 wa kappad dx
                  \<lparr>st_c = k, st_deriv = d, st_x = search_x x0 k, st_xstar = xs\<rparr>
               = find_min_loop x0 wa kappad dx
                  \<lparr>st_c = Suc k, st_deriv = d1, st_x = search_x x0 (Suc k), st_xstar = xs\<rparr>"
    by (rule loop_step_positive[OF kc Suc.prems(2) d1(2) d1(1)])
  have "\<exists>d'>0. find_min_loop x0 wa kappad dx
                  \<lparr>st_c = Suc k, st_deriv = d1, st_x = search_x x0 (Suc k), st_xstar = xs\<rparr>
               = find_min_loop x0 wa kappad dx
                  \<lparr>st_c = n, st_deriv = d', st_x = search_x x0 n, st_xstar = xs\<rparr>"
  proof (rule Suc.hyps(1))
    show "m = n - Suc k" using Suc.hyps(2) by simp
    show "Suc k \<le> n" using kn by simp
    show "0 < d1" by (rule d1(1))
    show "\<forall>j. Suc k \<le> j \<and> j < n \<longrightarrow> positive_at x0 wa kappad dx j"
      using Suc.prems(3) by simp
  qed
  with step1 show ?case by simp
qed

lemma loop_found:
  assumes "k < count_max" "\<forall>j<k. positive_at x0 wa kappad dx j"
    and "deriv_expr x0 wa kappad dx (search_x x0 k) = Inr d" "d \<le> 0"
  shows "find_min_loop x0 wa kappad dx (initial_state x0)
           = Inr \<lparr>st_c = Suc k, st_deriv = d, st_x = search_x x0 (Suc k),
                  st_xstar = Some (search_x x0 k)\<rparr>"
proof -
  have "\<exists>d'>0. find_min_loop x0 wa kappad dx
                  \<lparr>st_c = 0, st_deriv = 10, st_x = search_x x0 0, st_xstar = None\<rparr>
               = find_min_loop x0 wa kappad dx
                  \<lparr>st_c = k, st_deriv = d', st_x = search_x x0 k, st_xstar = None\<rparr>"
    using assms(1,2) by (intro loop_run) simp_all
  then obtain d' where d': "0 < d'"
    "find_min_loop x0 wa kappad dx (initial_state x0)
       = find_min_loop x0 wa kappad dx
           \<lparr>st_c = k, st_deriv = d', st_x = search_x x0 k, st_xstar = None\<rparr>"
    unfolding initial_state_search by blast
  show ?thesis
    unfolding d'(2) by (rule loop_step_nonpositive[OF assms(1) d'(1) assms(3,4)])
qed

lemma loop_failed:
  assumes "k < count_max" "\<forall>j<k. positive_at x0 wa kappad dx j"
    and "deriv_expr x0 wa kappad dx (search_x x0 k) = Inl e"
  shows "find_min_loop x0 wa kappad dx (initial_state x0) = Inl e"
proof -
  have "\<exists>d'>0. find_min_loop x0 wa kappad dx
                  \<lparr>st_c = 0, st_deriv = 10, st_x = search_x x0 0, st_xstar = None\<rparr>
               = find_min_loop x0 wa kappad dx
                  \<lparr>st_c = k, st_deriv = d', st_x = search_x x0 k, st_xstar = None\<rparr>"
    using assms(1,2) by (intro loop_run) simp_all
  then obtain d' where d': "0 < d'"
    "find_min_loop x0 wa kappad dx (initial_state x0)
       = find_min_loop x0 wa kappad dx
           \<lparr>st_c = k, st_deriv = d', st_x = search_x x0 k, st_xstar = None\<rparr>"
    unfolding initial_state_search by blast
  show ?thesis
    unfolding d'(2) by (rule loop_step_error[OF assms(1) d'(1) assms(3)])
qed

lemma loop_never:
  assumes "\<forall>j<count_max. positive_at x0 wa kappad dx j"
  shows "\<exists>d>0. find_min_loop x0 wa kappad dx (initial_state x0)
           = Inr \<lparr>st_c = count_max, st_deriv = d, st_x = search_x x0 count_max, st_xstar = None\<rparr>"
proof -
  have "\<exists>d'>0. find_min_loop x0 wa kappad dx
                  \<lparr>st_c = 0, st_deriv = 10, st_x = search_x x0 0, st_xstar = None\<rparr>
               = find_min_loop x0 wa kappad dx
                  \<lparr>st_c = count_max, st_deriv = d', st_x = search_x x0 count_max, st_xstar = None\<rparr>"
    using assms by (intro loop_run) simp_all
  then show ?thesis
    unfolding initial_state_search loop_cap by blast
qed

lemma find_min_found:
  assumes "k < count_max" "\<forall>j<k. positive_at x0 wa kappad dx j"
    and "nonpositive_at x0 wa kappad dx k"
  shows "find_min x0 wa kappad dx = Inr (g_fun x0 wa kappad dx (search_x x0 k))"
proof -
  from assms(3) obtain d where d: "deriv_expr x0 wa kappad dx (search_x x0 k) = Inr d" "d \<le> 0"
    by (auto simp: nonpositive_at_def split: sum.splits)
  show ?thesis
    unfolding find_min_def loop_found[OF assms(1,2) d]
    by (simp add: g_expr_of_deriv_expr[OF d(1)])
qed

lemma find_min_never:
  assumes "\<forall>j<count_max. positive_at x0 wa kappad dx j"
  shows "find_min x0 wa kappad dx = Inl UnboundLocalError"
proof -
  from loop_never[OF assms] obtain d where
    "find_min_loop x0 wa kappad dx (initial_state x0)
           = Inr \<lparr>st_c = count_max, st_deriv = d, st_x = search_x x0 count_max, st_xstar = None\<rparr>"
    by blast
  then show ?thesis by (simp add: find_min_def)
qed

lemma find_min_Inr_iff:
  "find_min x0 wa kappad dx = Inr v \<longleftrightarrow>
     (\<exists>k<count_max. (\<forall>j<k. positive_at x0 wa kappad dx j) \<and> nonpositive_at x0 wa kappad dx k
        \<and> v = g_fun x0 wa kappad dx (search_x x0 k))"
proof
  assume r: "find_min x0 wa kappad dx = Inr v"
  show "\<exists>k<count_max. (\<forall>j<k. positive_at x0 wa kappad dx j) \<and> nonpositive_at x0 wa kappad dx k
        \<and> v = g_fun x0 wa kappad dx (search_x x0 k)"
  proof (cases "\<forall>j<count_max. positive_at x0 wa kappad dx j")
    case True
    from find_min_never[OF True] r show ?thesis by simp
  next
    case False
    then have ex: "\<exists>j. j < count_max \<and> \<not> positive_at x0 wa kappad dx j" by blast
    define k where "k = (LEAST j. j < count_max \<and> \<not> positive_at x0 wa kappad dx j)"
    from LeastI_ex[OF ex] have k: "k < count_max" "\<not> positive_at x0 wa kappad dx k"
      unfolding k_def by blast+
    have before: "\<forall>j<k. positive_at x0 wa kappad dx j"
    proof (intro allI impI)
      fix j assume jk: "j < k"
      show "positive_at x0 wa kappad dx j"
      proof (rule ccontr)
        assume "\<not> positive_at x0 wa kappad dx j"
        with jk k(1) have "j < count_max \<and> \<not> positive_at x0 wa kappad dx j" by simp
        then have "k \<le> j" unfolding k_def by (rule Least_le)
        with jk show False by simp
      qed
    qed
    show ?thesis
    proof (cases "deriv_expr x0 wa kappad dx (search_x x0 k)")
      case (Inl e)
      from loop_failed[OF k(1) before Inl] r show ?thesis
        by (simp add: find_min_def)
    next
      case (Inr d)
      with k(2) have np: "nonpositive_at x0 wa kappad dx k"
        by (simp add: positive_at_def nonpositive_at_def)
      from find_min_found[OF k(1) before np] r
      have "v = g_fun x0 wa kappad dx (search_x x0 k)" by simp
      with k(1) before np show ?thesis by blast
    qed
  qed
next
  assume "\<exists>k<count_max. (\<forall>j<k. positive_at x0 wa kappad dx j) \<and> nonpositive_at x0 wa kappad dx k
        \<and> v = g_fun x0 wa kappad dx (search_x x0 k)"
  then show "find_min x0 wa kappad dx = Inr v"
    using find_min_found by blast
qed

lemma g_exact_deriv:
  assumes "wa \<noteq> 0"
  shows "((\<lambda>x. g_exact x0 wa kappad dx x) has_real_derivative
            - (2 / wa\<^sup>2) * ((x - x0) * exp (- ((x - x0) / wa)\<^sup>2)
                 - kappad * (x - dx - x0) * exp (- ((x - dx - x0) / wa)\<^sup>2))) (at x)"
  unfolding g_exact_def
  using assms
  by (auto intro!: derivative_eq_intros simp: power2_eq_square field_simps)

lemma g_exact_deriv_fun:
  assumes "wa \<noteq> 0" "no_underflow x0 wa dx x"
  shows "((\<lambda>x. g_exact x0 wa kappad dx x) has_real_derivative
            - (2 / wa\<^sup>2) * deriv_fun x0 wa kappad dx x) (at x)"
  unfolding no_underflow_values(2)[OF assms(2)] by (rule g_exact_deriv[OF assms(1)])

lemma deriv_expr_value:
  "deriv_expr x0 wa kappad dx x = Inr d \<Longrightarrow> d = deriv_fun x0 wa kappad dx x \<and> wa \<noteq> 0"
  by (simp add: deriv_expr_Inr_iff)

lemma positive_at_value:
  "positive_at x0 wa kappad dx j \<Longrightarrow> 0 < deriv_fun x0 wa kappad dx (search_x x0 j)"
  by (auto simp: positive_at_def deriv_expr_Inr_iff split: sum.splits)

text \<open>
  Claim C3, amended. \<^verbatim>\<open>find_min\<close> starts at the double \<open>x = x0 + 50\<close> and in each
  iteration replaces \<open>x\<close> by the double nearest to \<open>x - 0.05\<close>, where \<open>0.05\<close> is the double
  so written. If the expression
  \<open>deriv = (x - x0) * exp (- ((x - x0) / wa)\<^sup>2) - kappad * (x - dx - x0) * exp (- ((x - dx - x0) / wa)\<^sup>2)\<close>
  is positive in the iterations before \<open>k\<close> and non-positive in iteration
  \<open>k < 1000000\<close>, the loop stops after \<open>k + 1\<close> iterations with \<open>xstar\<close> the value of
  \<open>x\<close> in iteration \<open>k\<close>, and \<^verbatim>\<open>find_min\<close> returns \<open>g xstar\<close>. Where neither exponential
  underflows, this expression is \<open>- wa\<^sup>2 / 2\<close> times the derivative of \<open>g\<close>: the
  derivative of \<open>g\<close> at \<open>xstar\<close> is then \<open>- (2 / wa\<^sup>2) * deriv\<close>, which is non-negative.
\<close>

theorem find_min_search:
  assumes "k < count_max"
    and "\<forall>j<k. positive_at x0 wa kappad dx j"
    and "nonpositive_at x0 wa kappad dx k"
  shows "search_x x0 0 = round_double (x0 + 50)
         \<and> (\<forall>j. search_x x0 (Suc j) = round_double (search_x x0 j - round_double 0.05))
         \<and> find_min_loop x0 wa kappad dx (initial_state x0)
           = Inr \<lparr>st_c = Suc k, st_deriv = deriv_fun x0 wa kappad dx (search_x x0 k),
                  st_x = search_x x0 (Suc k), st_xstar = Some (search_x x0 k)\<rparr>
         \<and> Suc k \<le> 1000000
         \<and> (\<forall>j<k. 0 < deriv_fun x0 wa kappad dx (search_x x0 j))
         \<and> deriv_fun x0 wa kappad dx (search_x x0 k) \<le> 0
         \<and> find_min x0 wa kappad dx = Inr (g_fun x0 wa kappad dx (search_x x0 k))
         \<and> (no_underflow x0 wa dx (search_x x0 k) \<longrightarrow>
              g_fun x0 wa kappad dx (search_x x0 k) = g_exact x0 wa kappad dx (search_x x0 k)
              \<and> ((\<lambda>x. g_exact x0 wa kappad dx x) has_real_derivative
                    - (2 / wa\<^sup>2) * deriv_fun x0 wa kappad dx (search_x x0 k))
                   (at (search_x x0 k)))"
proof -
  from assms(3) obtain d where d: "deriv_expr x0 wa kappad dx (search_x x0 k) = Inr d" "d \<le> 0"
    by (auto simp: nonpositive_at_def split: sum.splits)
  from deriv_expr_value[OF d(1)] have dv: "d = deriv_fun x0 wa kappad dx (search_x x0 k)"
    and wa: "wa \<noteq> 0" by simp_all
  have 0: "search_x x0 0 = round_double (x0 + 50)"
    "\<forall>j. search_x x0 (Suc j) = round_double (search_x x0 j - round_double 0.05)"
    by (simp_all add: step_def)
  have 1: "find_min_loop x0 wa kappad dx (initial_state x0)
           = Inr \<lparr>st_c = Suc k, st_deriv = deriv_fun x0 wa kappad dx (search_x x0 k),
                  st_x = search_x x0 (Suc k), st_xstar = Some (search_x x0 k)\<rparr>"
    using loop_found[OF assms(1,2) d] unfolding dv .
  have 2: "Suc k \<le> 1000000"
    using assms(1) by (simp add: count_max_def)
  have 3: "\<forall>j<k. 0 < deriv_fun x0 wa kappad dx (search_x x0 j)"
    using assms(2) positive_at_value by blast
  have 4: "deriv_fun x0 wa kappad dx (search_x x0 k) \<le> 0"
    using d(2) unfolding dv .
  have 5: "find_min x0 wa kappad dx = Inr (g_fun x0 wa kappad dx (search_x x0 k))"
    by (rule find_min_found[OF assms])
  have 6: "no_underflow x0 wa dx (search_x x0 k) \<longrightarrow>
              g_fun x0 wa kappad dx (search_x x0 k) = g_exact x0 wa kappad dx (search_x x0 k)
              \<and> ((\<lambda>x. g_exact x0 wa kappad dx x) has_real_derivative
                    - (2 / wa\<^sup>2) * deriv_fun x0 wa kappad dx (search_x x0 k))
                   (at (search_x x0 k))"
    using no_underflow_values(1) g_exact_deriv_fun[OF wa] by blast
  from 0 1 2 3 4 5 6 show ?thesis by blast
qed

lemma float_max_ge_1: "1 \<le> float_max"
  using float_max_pos by simp

lemma exp_neg_lower: "1 - u \<le> exp (- u)" for u :: real
  using exp_ge_add_one_self[of "- u"] by simp

lemma two_lobes_expr:
  assumes "\<bar>x\<bar> \<le> 51"
  shows "deriv_expr 0 100 (- 1) (1 / 20) x = Inr (deriv_fun 0 100 (- 1) (1 / 20) x)"
    and "deriv_fun 0 100 (- 1) (1 / 20) x
          = x * exp (- (x / 100)\<^sup>2) + (x - 1 / 20) * exp (- ((x - 1 / 20) / 100)\<^sup>2)"
proof -
  have "\<bar>x / 100\<bar> \<le> 1" "\<bar>(x - 1 / 20) / 100\<bar> \<le> 1"
    using assms by simp_all
  then have s1: "(x / 100)\<^sup>2 \<le> 1" "((x - 1 / 20) / 100)\<^sup>2 \<le> 1"
    by (simp_all only: abs_square_le_1)
  then have sq: "(x / 100)\<^sup>2 \<le> float_max" "((x - 1 / 20) / 100)\<^sup>2 \<le> float_max"
    using float_max_ge_1 by linarith+
  show "deriv_expr 0 100 (- 1) (1 / 20) x = Inr (deriv_fun 0 100 (- 1) (1 / 20) x)"
    using sq by (simp add: deriv_expr_Inr_iff)
  have fe: "float_exp (- ((x / 100)\<^sup>2)) = exp (- ((x / 100)\<^sup>2))"
    "float_exp (- (((x - 1 / 20) / 100)\<^sup>2)) = exp (- (((x - 1 / 20) / 100)\<^sup>2))"
    using s1 by (simp_all add: float_exp_neg_sq)
  show "deriv_fun 0 100 (- 1) (1 / 20) x
          = x * exp (- (x / 100)\<^sup>2) + (x - 1 / 20) * exp (- ((x - 1 / 20) / 100)\<^sup>2)"
    by (simp add: deriv_fun_def fe algebra_simps)
qed

lemma two_lobes_positive:
  assumes "j < 1000"
  shows "positive_at 0 100 (- 1) (1 / 20) j"
proof -
  define x where "x = search_x 0 j"
  have j: "j \<le> 2 ^ 20" "real j \<le> 999" using assms by simp_all
  have x: "1 / 25 \<le> x" "x \<le> 51" "- (1 / 2 ^ 16) \<le> x - 1 / 20"
    using search_x_bounds[OF j(1)] j(2) by (simp_all add: x_def)
  have ax: "\<bar>x\<bar> \<le> 51" using x by simp
  define E1 where "E1 = exp (- (x / 100)\<^sup>2)"
  define E2 where "E2 = exp (- ((x - 1 / 20) / 100)\<^sup>2)"
  have E2: "0 < E2" "E2 \<le> 1" by (simp_all add: E2_def)
  have "(x / 100)\<^sup>2 \<le> (51 / 100)\<^sup>2"
    using x by (intro power_mono) simp_all
  then have "(x / 100)\<^sup>2 \<le> 1 / 2" by (simp add: power2_eq_square)
  with exp_neg_lower[of "(x / 100)\<^sup>2"] have E1: "1 / 2 \<le> E1"
    unfolding E1_def by linarith
  have a: "1 / 25 * (1 / 2) \<le> x * E1"
    using x E1 by (intro mult_mono) simp_all
  have b: "- (1 / 2 ^ 16) \<le> (x - 1 / 20) * E2"
  proof (cases "0 \<le> x - 1 / 20")
    case True
    then have "0 \<le> (x - 1 / 20) * E2" using E2 by simp
    then show ?thesis by (simp add: order_trans[of _ 0])
  next
    case False
    then have "(x - 1 / 20) * 1 \<le> (x - 1 / 20) * E2"
      using E2 by (intro mult_left_mono_neg) simp_all
    then have "x - 1 / 20 \<le> (x - 1 / 20) * E2" by simp
    with x(3) show ?thesis by (rule order_trans)
  qed
  have "(0::real) < 1 / 25 * (1 / 2) - 1 / 2 ^ 16" by simp
  with a b have "0 < x * E1 + (x - 1 / 20) * E2" by linarith
  then have "0 < deriv_fun 0 100 (- 1) (1 / 20) x"
    unfolding two_lobes_expr(2)[OF ax] E1_def E2_def .
  with two_lobes_expr(1)[OF ax] show ?thesis
    by (simp add: positive_at_def x_def)
qed

lemma two_lobes_stop: "nonpositive_at 0 100 (- 1) (1 / 20) 1000"
proof -
  define x where "x = search_x 0 1000"
  have x: "- (1 / 2 ^ 16) \<le> x" "x \<le> 1 / 2 ^ 16"
    using search_x_bounds[of 1000] by (simp_all add: x_def)
  have ax: "\<bar>x\<bar> \<le> 51" using x by simp
  define E1 where "E1 = exp (- (x / 100)\<^sup>2)"
  define E2 where "E2 = exp (- ((x - 1 / 20) / 100)\<^sup>2)"
  have E1: "0 < E1" "E1 \<le> 1" by (simp_all add: E1_def)
  have "\<bar>(x - 1 / 20) / 100\<bar> \<le> 1 / 2" using x by simp
  then have "((x - 1 / 20) / 100)\<^sup>2 \<le> (1 / 2)\<^sup>2"
    by (simp only: abs_le_square_iff[symmetric])
  then have "((x - 1 / 20) / 100)\<^sup>2 \<le> 1 / 2" by (simp add: power2_eq_square)
  with exp_neg_lower[of "((x - 1 / 20) / 100)\<^sup>2"] have E2: "1 / 2 \<le> E2"
    unfolding E2_def by linarith
  have a: "x * E1 \<le> 1 / 2 ^ 16"
  proof (cases "0 \<le> x")
    case True
    then have "x * E1 \<le> x * 1" using E1 by (intro mult_left_mono) simp_all
    with x show ?thesis by linarith
  next
    case False
    then have "x * E1 \<le> 0" using E1 by (simp add: mult_le_0_iff)
    then show ?thesis by (simp add: order_trans[of _ 0])
  qed
  have "(1 / 20 - x) * E2 \<ge> (1 / 25) * (1 / 2)"
    using x E2 by (intro mult_mono) simp_all
  then have b: "(x - 1 / 20) * E2 \<le> - (1 / 50)"
    by (simp add: algebra_simps)
  have "(1::real) / 2 ^ 16 - 1 / 50 \<le> 0" by simp
  with a b have "x * E1 + (x - 1 / 20) * E2 \<le> 0" by linarith
  then have "deriv_fun 0 100 (- 1) (1 / 20) x \<le> 0"
    unfolding two_lobes_expr(2)[OF ax] E1_def E2_def .
  with two_lobes_expr(1)[OF ax] show ?thesis
    by (simp add: nonpositive_at_def x_def)
qed

text \<open>
  With \<open>kappad = - 1\<close>, \<open>dx = 0.05\<close> and \<open>wa = 100\<close> the expression is positive in the
  first 1000 iterations, where \<open>x\<close> is \<open>0.05\<close> or more up to rounding, and negative in the
  next one, where \<open>x\<close> is \<open>0\<close> up to rounding: the search runs 1001 iterations.
\<close>

theorem find_min_search_witness:
  "find_min_loop 0 100 (- 1) (1 / 20) (initial_state 0)
     = Inr \<lparr>st_c = 1001, st_deriv = deriv_fun 0 100 (- 1) (1 / 20) (search_x 0 1000),
            st_x = search_x 0 1001, st_xstar = Some (search_x 0 1000)\<rparr>
   \<and> find_min 0 100 (- 1) (1 / 20) = Inr (g_fun 0 100 (- 1) (1 / 20) (search_x 0 1000))
   \<and> \<bar>search_x 0 1000\<bar> \<le> 1 / 2 ^ 16"
proof -
  have k: "(1000::nat) < count_max"
    by (simp add: count_max_def)
  have pos: "\<forall>j<1000. positive_at 0 100 (- 1) (1 / 20) j"
    using two_lobes_positive by blast
  have near: "\<bar>search_x 0 1000\<bar> \<le> 1 / 2 ^ 16"
    using search_x_near[of 1000] by simp
  from find_min_search[OF k pos two_lobes_stop] near
  show ?thesis
    by (simp del: search_x.simps add: eval_nat_numeral(3)[symmetric])
qed

lemma inverted_gaussian_stop: "nonpositive_at 0 100 2 0 0"
proof -
  have "((50::real) / 100)\<^sup>2 \<le> 1"
    by (simp add: power2_eq_square)
  then have "((50::real) / 100)\<^sup>2 \<le> float_max"
    using float_max_ge_1 by linarith
  then have "deriv_expr 0 100 2 0 50 = Inr (deriv_fun 0 100 2 0 50)"
    by (simp add: deriv_expr_Inr_iff)
  then show ?thesis
    by (simp add: nonpositive_at_def search_x_0 deriv_fun_def float_exp_nonneg
        del: search_x.simps)
qed

lemma round_double_dyadic:
  assumes "2 powr (of_int e) \<le> \<bar>x\<bar>" "\<bar>x\<bar> < 2 powr (of_int e + 1)"
  shows "\<exists>m::int. round_double x = 2 powr (of_int (e - 52)) * of_int m"
proof -
  have x0: "x \<noteq> 0"
    using assms(1) by (metis abs_zero not_le powr_gt_zero zero_neq_numeral)
  have "\<lfloor>log 2 \<bar>x\<bar>\<rfloor> = e"
    using x0 assms(1,2) by (simp add: floor_log_eq_powr_iff)
  then show ?thesis
    using x0 by (auto simp: round_double_def Let_def)
qed

lemma first_decrement_inexact: "round_double (50 - round_double 0.05) \<noteq> 50 - 0.05"
proof
  assume eq: "round_double (50 - round_double 0.05) = 50 - 0.05"
  define y where "y = 50 - round_double 0.05"
  have "(1::real) / 2 ^ 57 \<le> 1 / 20" by simp
  with abs_boundsD[OF step_bounds] have st: "0 \<le> step" "step \<le> 1 / 10"
    by linarith+
  have y: "32 \<le> y" "y < 64"
    using st by (simp_all add: y_def step_def)
  have "\<exists>m::int. round_double y = 2 powr (of_int (5 - 52)) * of_int m"
    using y by (intro round_double_dyadic) simp_all
  then obtain m :: int where m: "round_double y = 2 powr (of_int (5 - 52)) * of_int m"
    by blast
  have q: "(2::real) powr (of_int (5 - 52)) = 1 / 2 ^ 47"
    by (simp add: powr_minus_divide)
  from m have "round_double y = 1 / 2 ^ 47 * of_int m"
    by (simp only: q)
  with eq have "1 / 2 ^ 47 * of_int m = (50 - 0.05 :: real)"
    by (simp only: y_def)
  then have "(of_int m :: real) * 20 = 999 * 2 ^ 47"
    by (simp add: field_simps)
  then have "(of_int (m * 20) :: real) = of_int (999 * 2 ^ 47)"
    by simp
  then have m20: "m * 20 = 999 * 2 ^ 47"
    by (simp only: of_int_eq_iff)
  have "(5::int) dvd m * 20" by simp
  then have "(5::int) dvd 999 * 2 ^ 47" by (simp only: m20)
  moreover have "\<not> (5::int) dvd 999 * 2 ^ 47" by simp
  ultimately show False by blast
qed

text \<open>
  Claim C3 as stated fails. For \<open>kappad = 2\<close>, \<open>dx = 0\<close>, \<open>wa = 100\<close> the search records
  \<open>xstar = 50\<close> in its first iteration, where the derivative of \<open>g\<close> is positive; and the
  value of \<open>x\<close> after that iteration is a double, not \<open>50 - 0.05\<close>.
\<close>

theorem find_min_derivative_sign_counterexample:
  "find_min_loop 0 100 2 0 (initial_state 0)
     = Inr \<lparr>st_c = 1, st_deriv = - (50 * exp (- (1 / 4))),
            st_x = round_double (50 - round_double 0.05), st_xstar = Some 50\<rparr>
   \<and> ((\<lambda>x. g_exact 0 100 2 0 x) has_real_derivative exp (- (1 / 4)) / 100) (at 50)
   \<and> 0 < exp (- (1 / 4)) / (100::real)
   \<and> round_double (50 - round_double 0.05) \<noteq> 50 - 0.05"
proof -
  have x: "search_x 0 0 = 50" "search_x 0 (Suc 0) = round_double (50 - round_double 0.05)"
    by (simp_all add: round_double_50 step_def)
  from inverted_gaussian_stop obtain d where d: "deriv_expr 0 100 2 0 (search_x 0 0) = Inr d" "d \<le> 0"
    by (auto simp: nonpositive_at_def split: sum.splits)
  have fe: "float_exp (- (1 / 4)) = exp (- (1 / 4))"
    by (rule float_exp_eq) simp
  have dv: "d = - (50 * exp (- (1 / 4)))"
    using deriv_expr_value[OF d(1)] unfolding x by (simp add: deriv_fun_def power2_eq_square fe)
  have k: "0 < count_max" by (simp add: count_max_def)
  have 1: "find_min_loop 0 100 2 0 (initial_state 0)
     = Inr \<lparr>st_c = 1, st_deriv = - (50 * exp (- (1 / 4))),
            st_x = round_double (50 - round_double 0.05), st_xstar = Some 50\<rparr>"
    using loop_found[OF k _ d] unfolding x dv by simp
  have "((\<lambda>x. g_exact 0 100 2 0 x) has_real_derivative
            - (2 / 100\<^sup>2) * ((50 - 0) * exp (- ((50 - 0) / 100)\<^sup>2)
                 - 2 * (50 - 0 - 0) * exp (- ((50 - 0 - 0) / 100)\<^sup>2))) (at 50)"
    by (rule g_exact_deriv) simp
  moreover have "- (2 / 100\<^sup>2) * ((50 - 0) * exp (- ((50 - 0) / 100)\<^sup>2)
                 - 2 * (50 - 0 - 0) * exp (- ((50 - 0 - 0) / 100)\<^sup>2))
                   = exp (- (1 / 4)) / (100::real)"
    by (simp add: power2_eq_square)
  ultimately have 2: "((\<lambda>x. g_exact 0 100 2 0 x) has_real_derivative exp (- (1 / 4)) / 100) (at 50)"
    by (simp only:)
  from 1 2 first_decrement_inexact show ?thesis by simp
qed

text \<open>
  Claim C8. If \<^verbatim>\<open>deriv\<close> is positive in all 1000000 iterations, \<open>xstar\<close> is never
  assigned and \<^verbatim>\<open>find_min\<close> raises \<^verbatim>\<open>UnboundLocalError\<close> instead of returning a
  number. \<^verbatim>\<open>find_min\<close> returns a number exactly when \<^verbatim>\<open>deriv\<close> becomes non-positive
  in some iteration within the cap, and the number is then \<open>g xstar\<close>.
\<close>

theorem find_min_well_defined:
  "((\<forall>j<count_max. positive_at x0 wa kappad dx j)
       \<longrightarrow> find_min x0 wa kappad dx = Inl UnboundLocalError)
   \<and> ((\<exists>v. find_min x0 wa kappad dx = Inr v)
        \<longleftrightarrow> (\<exists>k<count_max. (\<forall>j<k. positive_at x0 wa kappad dx j)
                               \<and> nonpositive_at x0 wa kappad dx k))
   \<and> (\<forall>k<count_max. (\<forall>j<k. positive_at x0 wa kappad dx j) \<and> nonpositive_at x0 wa kappad dx k
        \<longrightarrow> find_min x0 wa kappad dx = Inr (g_fun x0 wa kappad dx (search_x x0 k)))"
proof (intro conjI)
  show "(\<forall>j<count_max. positive_at x0 wa kappad dx j)
       \<longrightarrow> find_min x0 wa kappad dx = Inl UnboundLocalError"
    using find_min_never by blast
  show "(\<exists>v. find_min x0 wa kappad dx = Inr v)
        \<longleftrightarrow> (\<exists>k<count_max. (\<forall>j<k. positive_at x0 wa kappad dx j)
                               \<and> nonpositive_at x0 wa kappad dx k)"
    unfolding find_min_Inr_iff by blast
  show "\<forall>k<count_max. (\<forall>j<k. positive_at x0 wa kappad dx j) \<and> nonpositive_at x0 wa kappad dx k
        \<longrightarrow> find_min x0 wa kappad dx = Inr (g_fun x0 wa kappad dx (search_x x0 k))"
    using find_min_found by blast
qed

lemma far_lobe_positive:
  assumes "j < count_max"
  shows "positive_at 0 1000000 (- 1) (- 200000) j"
proof -
  define x where "x = search_x 0 j"
  have j: "j \<le> 2 ^ 20" "real j < 1000000"
    using assms by (simp_all add: count_max_def)
  have x: "- 49951 < x" "x \<le> 51"
    using search_x_bounds[OF j(1)] j(2) by (simp_all add: x_def)
  define a where "a = x + 200000"
  have a: "150049 < a" "a \<le> 200051"
    using x by (simp_all add: a_def)
  define u where "u = (a / 1000000)\<^sup>2"
  define t where "t = (x / 1000000)\<^sup>2"
  have "\<bar>a / 1000000\<bar> \<le> 1" using a by simp
  then have u1: "u \<le> 1" unfolding u_def by (simp only: abs_square_le_1)
  have "\<bar>x / 1000000\<bar> \<le> 1" using x by simp
  then have t1: "t \<le> 1" unfolding t_def by (simp only: abs_square_le_1)
  have de: "deriv_expr 0 1000000 (- 1) (- 200000) x = Inr (deriv_fun 0 1000000 (- 1) (- 200000) x)"
    using u1 t1 float_max_ge_1 by (simp add: deriv_expr_Inr_iff u_def t_def a_def)
  have fe: "float_exp (- t) = exp (- t)" "float_exp (- u) = exp (- u)"
    using t1 u1 by (simp_all add: float_exp_eq)
  have "a / 1000000 \<le> 1 / 4" "0 \<le> a / 1000000" using a by simp_all
  then have "(a / 1000000)\<^sup>2 \<le> (1 / 4)\<^sup>2"
    by (intro power_mono)
  then have u2: "u \<le> 1 / 16" by (simp add: u_def power2_eq_square)
  have "1 + (- u) \<le> exp (- u)" by (rule exp_ge_add_one_self)
  with u2 have e2: "15 / 16 \<le> exp (- u)" by linarith
  have "150049 * (15 / 16) \<le> a * exp (- u)"
    using a e2 by (intro mult_mono) simp_all
  then have second: "140000 \<le> a * exp (- u)" by simp
  have et: "0 < exp (- t)" "exp (- t) \<le> 1"
    by (simp_all add: t_def)
  have first: "- 49951 \<le> x * exp (- t)"
  proof (cases "0 \<le> x")
    case True
    then have "0 \<le> x * exp (- t)" by simp
    then show ?thesis by linarith
  next
    case False
    then have "x * 1 \<le> x * exp (- t)"
      using et by (intro mult_left_mono_neg) simp_all
    with x show ?thesis by linarith
  qed
  have "deriv_fun 0 1000000 (- 1) (- 200000) x = x * float_exp (- t) + a * float_exp (- u)"
    by (simp add: deriv_fun_def t_def u_def a_def algebra_simps)
  with first second have "0 < deriv_fun 0 1000000 (- 1) (- 200000) x"
    unfolding fe by linarith
  with de show ?thesis
    by (simp add: positive_at_def x_def)
qed

text \<open>
  A search that exhausts the cap (the second lobe is far to the left and has negative
  weight), and one that stops in its first iteration.
\<close>

theorem find_min_well_defined_witness:
  "find_min 0 1000000 (- 1) (- 200000) = Inl UnboundLocalError
   \<and> find_min 0 100 2 0 = Inr (- exp (- (1 / 4)))"
proof -
  have all: "\<forall>j<count_max. positive_at 0 1000000 (- 1) (- 200000) j"
    using far_lobe_positive by blast
  have 1: "find_min 0 1000000 (- 1) (- 200000) = Inl UnboundLocalError"
    using find_min_well_defined[of 0 1000000 "- 1" "- 200000"] all by blast
  have k: "0 < count_max" by (simp add: count_max_def)
  have "find_min 0 100 2 0 = Inr (g_fun 0 100 2 0 (search_x 0 0))"
    using find_min_well_defined[of 0 100 2 0] k inverted_gaussian_stop by simp
  moreover have "float_exp (- (1 / 4)) = exp (- (1 / 4))"
    by (rule float_exp_eq) simp
  ultimately have 2: "find_min 0 100 2 0 = Inr (- exp (- (1 / 4)))"
    by (simp add: g_fun_def round_double_50 power2_eq_square)
  from 1 2 show ?thesis by simp
qed
section \<open>Claims about the derivation procedures\<close>

lemma slide_parts_ignore [simp]:
  "slide_x0 (p\<lparr>sl_dx := d, sl_frictionco := f\<rparr>) = slide_x0 p"
  "slide_y0 (p\<lparr>sl_dx := d, sl_frictionco := f\<rparr>) = slide_y0 p"
  "slide_width (p\<lparr>sl_dx := d, sl_frictionco := f\<rparr>) = slide_width p"
  "slide_thickness (p\<lparr>sl_dx := d, sl_frictionco := f\<rparr>) = slide_thickness p"
  "slide_sint (p\<lparr>sl_dx := d, sl_frictionco := f\<rparr>) = slide_sint p"
  "slide_tant (p\<lparr>sl_dx := d, sl_frictionco := f\<rparr>) = slide_tant p"
  "slide_tanp (p\<lparr>sl_dx := d, sl_frictionco := f\<rparr>) = slide_tanp p"
  by (simp_all add: slide_x0_def slide_y0_def slide_width_def slide_thickness_def
      slide_sint_def slide_tant_def slide_tanp_def split: option.splits)

lemma slide_scaling_ignore:
  "slide_scaling (p\<lparr>sl_dx := d, sl_frictionco := f\<rparr>) = slide_scaling p"
  by (simp add: slide_scaling_def slide_a0_def slide_ut_def slide_a2D_def slide_a3D_def)

lemma slump_parts_ignore [simp]:
  "slump_x0 (q\<lparr>sm_dx := d, sm_frictionco := f\<rparr>) = slump_x0 q"
  "slump_y0 (q\<lparr>sm_dx := d, sm_frictionco := f\<rparr>) = slump_y0 q"
  "slump_width (q\<lparr>sm_dx := d, sm_frictionco := f\<rparr>) = slump_width q"
  "slump_thickness (q\<lparr>sm_dx := d, sm_frictionco := f\<rparr>) = slump_thickness q"
  "slump_sint (q\<lparr>sm_dx := d, sm_frictionco := f\<rparr>) = slump_sint q"
  by (simp_all add: slump_x0_def slump_y0_def slump_width_def slump_thickness_def
      slump_sint_def split: option.splits)

lemma slump_radius_ignore [simp]:
  "slump_radius (q\<lparr>sm_dx := d, sm_frictionco := f\<rparr>) = slump_radius q"
  by (simp add: slump_radius_def split: option.splits)

lemma slump_scaling_ignore:
  "slump_scaling (q\<lparr>sm_dx := d, sm_frictionco := f\<rparr>) = slump_scaling q"
  by (simp add: slump_scaling_def slump_t0_def slump_a2D_def slump_a3D_def)

text \<open>
  Claim C9. The results of \<^verbatim>\<open>slide_tsunami\<close> and \<^verbatim>\<open>slump_tsunami\<close> do not depend on
  the arguments \<open>dx\<close> and \<open>frictionco\<close>.
\<close>

theorem derivation_ignores_dx_and_frictionco:
  "slide_tsunami (p\<lparr>sl_dx := d, sl_frictionco := f\<rparr>) = slide_tsunami p
   \<and> slump_tsunami (q\<lparr>sm_dx := d', sm_frictionco := f'\<rparr>) = slump_tsunami q"
  by (simp add: slide_tsunami_def slide_scaling_ignore slide_range_checks_def
      slump_tsunami_def slump_scaling_ignore slump_range_checks_def)

lemma slide_a0_error: "slide_a0 p = Inl e \<Longrightarrow> e = ZeroDivisionError"
  by (auto simp: slide_a0_def py_div_def split: if_splits)

lemma slide_ut_error: "slide_ut p = Inl e \<Longrightarrow> e = ZeroDivisionError \<or> e = ValueError"
  by (auto simp: slide_ut_def py_div_def py_sqrt_def split: if_splits)

lemma slide_tan_zero:
  assumes "slide_tant p = 0"
  shows "slide_scaling p = Inl ZeroDivisionError"
proof -
  have "slide_a0 p = Inl ZeroDivisionError"
    using assms by (simp add: slide_a0_def py_div_def)
  then show ?thesis by (simp add: slide_scaling_def)
qed

lemma slide_depth_zero:
  assumes "sl_depth p = 0"
  shows "slide_scaling p = Inl ZeroDivisionError"
proof (cases "slide_a0 p")
  case (Inl e)
  with slide_a0_error[OF Inl] show ?thesis by (simp add: slide_scaling_def)
next
  case (Inr a0)
  have "slide_ut p = Inl ZeroDivisionError"
    using assms by (simp add: slide_ut_def py_div_def)
  with Inr show ?thesis by (simp add: slide_scaling_def)
qed

lemma slide_length_zero:
  assumes "sl_length p = 0"
  shows "slide_scaling p = Inl ZeroDivisionError \<or> slide_scaling p = Inl ValueError"
proof (cases "slide_a0 p")
  case (Inl e)
  with slide_a0_error[OF Inl] show ?thesis by (simp add: slide_scaling_def)
next
  case a0: (Inr a0)
  show ?thesis
  proof (cases "slide_ut p")
    case (Inl e)
    with slide_ut_error[OF Inl] a0 show ?thesis by (auto simp: slide_scaling_def)
  next
    case (Inr ut)
    then have ut: "ut = 0"
      using assms by (auto simp: slide_ut_def py_div_def py_sqrt_def split: if_splits)
    have a2: "slide_a2D p s0 = Inl ZeroDivisionError" for s0
      using assms by (simp add: slide_a2D_def py_div_def)
    show ?thesis
      using a0 Inr ut a2 float_max_pos
      by (auto simp: slide_scaling_def py_pow_2 py_div_def py_sqrt_def)
  qed
qed

lemma slide_a0_zero:
  assumes "slide_a0 p = Inr 0"
  shows "slide_scaling p = Inl ZeroDivisionError \<or> slide_scaling p = Inl ValueError"
proof (cases "slide_ut p")
  case (Inl e)
  with slide_ut_error[OF Inl] assms show ?thesis by (auto simp: slide_scaling_def)
next
  case (Inr ut)
  define q where "q = (sl_gamma p - 1) / (sl_gamma p + sl_massco p)"
  define r where "r = slide_tanp p / slide_tant p"
  from assms have nz: "sl_gamma p + sl_massco p \<noteq> 0" "slide_tant p \<noteq> 0"
    and prod: "sl_gravity p * slide_sint p * q * (1 - r) = 0"
    by (auto simp: slide_a0_def py_div_def q_def r_def split: if_splits)
  from Inr have d: "sl_depth p \<noteq> 0" "sl_dragco p \<noteq> 0"
    and ut: "ut = sqrt ((sl_gravity p * sl_depth p) * (sl_length p * slide_sint p / sl_depth p)
                     * (pi * (sl_gamma p - 1) / (2 * sl_dragco p)) * (1 - r))"
    by (auto simp: slide_ut_def py_div_def py_sqrt_def r_def split: if_splits)
  from prod have "sl_gravity p = 0 \<or> slide_sint p = 0 \<or> q = 0 \<or> 1 - r = 0"
    by simp
  moreover have "sl_gamma p - 1 = 0" if "q = 0"
    using that nz by (simp add: q_def)
  ultimately have "(sl_gravity p * sl_depth p) * (sl_length p * slide_sint p / sl_depth p)
                     * (pi * (sl_gamma p - 1) / (2 * sl_dragco p)) * (1 - r) = 0"
    by auto
  with ut have "ut = 0" by simp
  with assms Inr float_max_pos show ?thesis
    by (simp add: slide_scaling_def py_pow_2 py_div_def)
qed

lemma slide_a3D_zero:
  assumes "slide_scaling p = Inr q" "sc_a3D q = 0"
  shows "slide_tsunami p = Inl ZeroDivisionError"
  using assms by (simp add: slide_tsunami_def dx_formula_zero)

text \<open>
  Claim C5. \<^verbatim>\<open>slide_tsunami\<close> raises \<^verbatim>\<open>ZeroDivisionError\<close> or \<^verbatim>\<open>ValueError\<close>, and
  returns no evaluator, when the tangent of the slope is zero, when \<open>depth\<close> or
  \<open>length\<close> is zero, when \<open>a0\<close> evaluates to zero, and when \<open>a3D\<close> evaluates to zero.
  The condition on the tangent asks for a non-zero cosine, since HOL's \<open>tan\<close> is also
  zero where the tangent is undefined.
\<close>

theorem slide_numeric_domain_errors:
  assumes "(tan (radians (sl_slope p)) = 0 \<and> cos (radians (sl_slope p)) \<noteq> 0)
           \<or> sl_depth p = 0 \<or> sl_length p = 0
           \<or> slide_a0 p = Inr 0
           \<or> (\<exists>q. slide_scaling p = Inr q \<and> sc_a3D q = 0)"
  shows "slide_tsunami p = Inl ZeroDivisionError \<or> slide_tsunami p = Inl ValueError"
proof -
  have sc: "slide_tsunami p = Inl e" if "slide_scaling p = Inl e" for e
    using that by (simp add: slide_tsunami_def)
  from assms consider "slide_tant p = 0" | "sl_depth p = 0" | "sl_length p = 0"
    | "slide_a0 p = Inr 0" | "\<exists>q. slide_scaling p = Inr q \<and> sc_a3D q = 0"
    by (auto simp: slide_tant_def)
  then show ?thesis
  proof cases
    case 1
    from sc[OF slide_tan_zero[OF 1]] show ?thesis by simp
  next
    case 2
    from sc[OF slide_depth_zero[OF 2]] show ?thesis by simp
  next
    case 3
    from slide_length_zero[OF 3] sc show ?thesis by blast
  next
    case 4
    from slide_a0_zero[OF 4] sc show ?thesis by blast
  next
    case 5
    then show ?thesis using slide_a3D_zero by blast
  qed
qed

lemma py_pow_one: "py_pow 1 y = Inr 1"
  using float_max_pos by (simp add: py_pow_def)

lemma radians_30: "radians 30 = pi / 6"
  by (simp add: radians_def)

lemma tan_30_nonzero: "tan (pi / 6) \<noteq> 0"
  by (simp add: tan_30)

lemma pi_le_float_max: "pi \<le> float_max"
proof -
  have "(4::real) \<le> float_max" by (simp add: float_max_def)
  with pi_less_4 show ?thesis by linarith
qed

lemma slide_example_parts:
  "slide_sint (slide_example\<lparr>sl_thickness := Some t\<rparr>) = 1 / 2"
  "slide_tant (slide_example\<lparr>sl_thickness := Some t\<rparr>) = tan (pi / 6)"
  "slide_tanp (slide_example\<lparr>sl_thickness := Some t\<rparr>) = 0"
  "slide_thickness (slide_example\<lparr>sl_thickness := Some t\<rparr>) = t"
  by (simp_all add: slide_sint_def slide_tant_def slide_tanp_def slide_thickness_def
      slide_example_def radians_30 sin_30 radians_def)

lemma slide_example_a0: "slide_a0 (slide_example\<lparr>sl_thickness := Some t\<rparr>) = Inr (1 / 2)"
  using tan_30_nonzero
  by (simp add: slide_a0_def slide_example_parts py_div_def) (simp add: slide_example_def)

lemma slide_example_ut: "slide_ut (slide_example\<lparr>sl_thickness := Some t\<rparr>) = Inr (sqrt pi)"
  using tan_30_nonzero
  by (simp add: slide_ut_def slide_example_parts py_div_def py_sqrt_def)
     (simp add: slide_example_def)

lemma slide_example_a2D_value:
  "slide_a2D (slide_example\<lparr>sl_thickness := Some t\<rparr>) s0
     = Inr (s0 * (0.0574 - 0.0431 * (1 / 2)) * (t / 2) * (1 - exp (- 2.2)))"
proof -
  have "\<not> float_max < exp (- (11 / 5))"
    using exp_neg_le_float_max[of "11 / 5"] by simp
  moreover have "float_exp (- (11 / 5)) = exp (- (11 / 5))"
    by (rule float_exp_eq) simp
  ultimately show ?thesis
    by (simp add: slide_a2D_def slide_example_parts py_div_def py_pow_one py_exp_def)
       (simp add: slide_example_def py_pow_one py_exp_def)
qed

lemma slide_example_a3D_value:
  "slide_a3D (slide_example\<lparr>sl_thickness := Some t\<rparr>) a = Inr (a / (33 / 2))"
  by (simp add: slide_a3D_def slide_example_parts py_div_def py_sqrt_def)
     (simp add: slide_example_def py_sqrt_def)

lemma slide_example_scaling:
  "slide_scaling (slide_example\<lparr>sl_thickness := Some t\<rparr>)
     = Inr \<lparr>sc_a0 = 1 / 2, sc_velocity = sqrt pi, sc_s0 = 2 * pi, sc_t0 = 2 * sqrt pi,
            sc_w = 2 * sqrt pi * sqrt 2, sc_a2D = slide_example_a2D t,
            sc_a3D = slide_example_a2D t / (33 / 2)\<rparr>"
proof -
  have g: "sl_gravity (slide_example\<lparr>sl_thickness := Some t\<rparr>) = 2"
    "sl_depth (slide_example\<lparr>sl_thickness := Some t\<rparr>) = 1"
    by (simp_all add: slide_example_def)
  have p2: "py_pow (sqrt pi) 2 = Inr pi"
    using pi_le_float_max by (simp add: py_pow_2)
  show ?thesis
    unfolding slide_scaling_def slide_example_a0 slide_example_ut bnd_Inr p2
    by (simp add: py_div_def py_sqrt_def g slide_example_a2D_value slide_example_a3D_value
        slide_example_a2D_def)
qed

text \<open>One input for each of the five conditions.\<close>

theorem slide_numeric_domain_errors_witness:
  "(slide_tsunami (slide_example\<lparr>sl_slope := 0\<rparr>) = Inl ZeroDivisionError
      \<or> slide_tsunami (slide_example\<lparr>sl_slope := 0\<rparr>) = Inl ValueError)
   \<and> (slide_tsunami (slide_example\<lparr>sl_depth := 0\<rparr>) = Inl ZeroDivisionError
      \<or> slide_tsunami (slide_example\<lparr>sl_depth := 0\<rparr>) = Inl ValueError)
   \<and> (slide_tsunami (slide_example\<lparr>sl_length := 0\<rparr>) = Inl ZeroDivisionError
      \<or> slide_tsunami (slide_example\<lparr>sl_length := 0\<rparr>) = Inl ValueError)
   \<and> (slide_tsunami (slide_example\<lparr>sl_psi := 30\<rparr>) = Inl ZeroDivisionError
      \<or> slide_tsunami (slide_example\<lparr>sl_psi := 30\<rparr>) = Inl ValueError)
   \<and> (slide_tsunami (slide_example\<lparr>sl_thickness := Some 0\<rparr>) = Inl ZeroDivisionError
      \<or> slide_tsunami (slide_example\<lparr>sl_thickness := Some 0\<rparr>) = Inl ValueError)"
proof -
  have h1: "tan (radians (sl_slope (slide_example\<lparr>sl_slope := 0\<rparr>))) = 0
            \<and> cos (radians (sl_slope (slide_example\<lparr>sl_slope := 0\<rparr>))) \<noteq> 0"
    by (simp add: radians_def)
  have h2: "sl_depth (slide_example\<lparr>sl_depth := 0\<rparr>) = 0"
    by simp
  have h3: "sl_length (slide_example\<lparr>sl_length := 0\<rparr>) = 0"
    by simp
  have h4: "slide_a0 (slide_example\<lparr>sl_psi := 30\<rparr>) = Inr 0"
    using tan_30_nonzero
    by (simp add: slide_a0_def slide_tanp_def slide_tant_def slide_sint_def slide_example_def
        radians_30 py_div_def)
  have "slide_example_a2D 0 = 0"
    by (simp add: slide_example_a2D_def)
  then have h5: "\<exists>q. slide_scaling (slide_example\<lparr>sl_thickness := Some 0\<rparr>) = Inr q \<and> sc_a3D q = 0"
    by (simp add: slide_example_scaling)
  from slide_numeric_domain_errors[of "slide_example\<lparr>sl_slope := 0\<rparr>"] h1
  have 1: "slide_tsunami (slide_example\<lparr>sl_slope := 0\<rparr>) = Inl ZeroDivisionError
      \<or> slide_tsunami (slide_example\<lparr>sl_slope := 0\<rparr>) = Inl ValueError"
    by blast
  from slide_numeric_domain_errors[of "slide_example\<lparr>sl_depth := 0\<rparr>"] h2
  have 2: "slide_tsunami (slide_example\<lparr>sl_depth := 0\<rparr>) = Inl ZeroDivisionError
      \<or> slide_tsunami (slide_example\<lparr>sl_depth := 0\<rparr>) = Inl ValueError"
    by blast
  from slide_numeric_domain_errors[of "slide_example\<lparr>sl_length := 0\<rparr>"] h3
  have 3: "slide_tsunami (slide_example\<lparr>sl_length := 0\<rparr>) = Inl ZeroDivisionError
      \<or> slide_tsunami (slide_example\<lparr>sl_length := 0\<rparr>) = Inl ValueError"
    by blast
  from slide_numeric_domain_errors[of "slide_example\<lparr>sl_psi := 30\<rparr>"] h4
  have 4: "slide_tsunami (slide_example\<lparr>sl_psi := 30\<rparr>) = Inl ZeroDivisionError
      \<or> slide_tsunami (slide_example\<lparr>sl_psi := 30\<rparr>) = Inl ValueError"
    by blast
  from slide_numeric_domain_errors[of "slide_example\<lparr>sl_thickness := Some 0\<rparr>"] h5
  have 5: "slide_tsunami (slide_example\<lparr>sl_thickness := Some 0\<rparr>) = Inl ZeroDivisionError
      \<or> slide_tsunami (slide_example\<lparr>sl_thickness := Some 0\<rparr>) = Inl ValueError"
    by blast
  from 1 2 3 4 5 show ?thesis by blast
qed



section \<open>Claims about the scale\<close>



lemma scale_unset:
  assumes "(case None of None \<Rightarrow> py_div a nmin | Some s \<Rightarrow> Inr s) = Inr sc"
  shows "nmin \<noteq> 0 \<and> sc = a / nmin"
  using assms by (auto simp: py_div_def split: if_splits)




































lemma slide_parts_scale [simp]:
  "slide_x0 (p\<lparr>sl_scale := s\<rparr>) = slide_x0 p"
  "slide_y0 (p\<lparr>sl_scale := s\<rparr>) = slide_y0 p"
  "slide_width (p\<lparr>sl_scale := s\<rparr>) = slide_width p"
  "slide_thickness (p\<lparr>sl_scale := s\<rparr>) = slide_thickness p"
  "slide_sint (p\<lparr>sl_scale := s\<rparr>) = slide_sint p"
  "slide_tant (p\<lparr>sl_scale := s\<rparr>) = slide_tant p"
  "slide_tanp (p\<lparr>sl_scale := s\<rparr>) = slide_tanp p"
  by (simp_all add: slide_x0_def slide_y0_def slide_width_def slide_thickness_def
      slide_sint_def slide_tant_def slide_tanp_def split: option.splits)


lemma slump_parts_scale [simp]:
  "slump_x0 (p\<lparr>sm_scale := s\<rparr>) = slump_x0 p"
  "slump_y0 (p\<lparr>sm_scale := s\<rparr>) = slump_y0 p"
  "slump_width (p\<lparr>sm_scale := s\<rparr>) = slump_width p"
  "slump_thickness (p\<lparr>sm_scale := s\<rparr>) = slump_thickness p"
  "slump_sint (p\<lparr>sm_scale := s\<rparr>) = slump_sint p"
  by (simp_all add: slump_x0_def slump_y0_def slump_width_def slump_thickness_def
      slump_sint_def split: option.splits)

lemma slump_radius_scale [simp]: "slump_radius (p\<lparr>sm_scale := s\<rparr>) = slump_radius p"
  by (simp add: slump_radius_def split: option.splits)







lemma slide_parts_kappad [simp]:
  "slide_x0 (p\<lparr>sl_kappad := k\<rparr>) = slide_x0 p"
  "slide_y0 (p\<lparr>sl_kappad := k\<rparr>) = slide_y0 p"
  "slide_width (p\<lparr>sl_kappad := k\<rparr>) = slide_width p"
  "slide_thickness (p\<lparr>sl_kappad := k\<rparr>) = slide_thickness p"
  "slide_sint (p\<lparr>sl_kappad := k\<rparr>) = slide_sint p"
  "slide_tant (p\<lparr>sl_kappad := k\<rparr>) = slide_tant p"
  "slide_tanp (p\<lparr>sl_kappad := k\<rparr>) = slide_tanp p"
  by (simp_all add: slide_x0_def slide_y0_def slide_width_def slide_thickness_def
      slide_sint_def slide_tant_def slide_tanp_def split: option.splits)






end
